theory Spec2Isabelle
  imports Main "HOL-Library.Sublist"
begin

section \<open>Values of the JavaScript runtime\<close>

text \<open>
  The program (\<^verbatim>\<open>src/lib.ts\<close>) works on parsed JSON documents and on plain JavaScript
  objects. A parsed JSON value is a \<open>json\<close>; numbers are restricted to integers, strings
  to lists of 8-bit characters. A JavaScript object is an association list whose order is the
  order in which the runtime enumerates the own keys (\<^verbatim>\<open>Object.keys\<close>, \<^verbatim>\<open>for ... in\<close>,
  \<^verbatim>\<open>JSON.stringify\<close>): array-index keys first, in ascending numeric order, then the other
  keys in insertion order.
\<close>

datatype json =
    JNull
  | JBool bool
  | JNum int
  | JStr string
  | JArr "json list"
  | JObj "(string \<times> json) list"

type_synonym 'a obj = "(string \<times> 'a) list"

datatype error = TypeError | SyntaxError | Exit nat | InferenceError

definition obj_get :: "'a obj \<Rightarrow> string \<Rightarrow> 'a option" where
  "obj_get ob k = map_of ob k"

definition is_digit :: "char \<Rightarrow> bool" where
  "is_digit c = (48 \<le> (of_char c :: int) \<and> (of_char c :: int) \<le> 57)"

definition digit_val :: "char \<Rightarrow> int" where
  "digit_val c = of_char c - 48"

text \<open>An array index is the canonical decimal string of an integer from 0 to \<open>2^32 - 2\<close>.\<close>

definition array_index :: "string \<Rightarrow> int option" where
  "array_index k =
     (if k = [] \<or> \<not> list_all is_digit k \<or> (1 < length k \<and> hd k = CHR ''0'') then None
      else (let n = foldl (\<lambda>a c. 10 * a + digit_val c) 0 k
            in if n < 4294967295 then Some n else None))"

fun obj_update :: "string \<Rightarrow> 'a \<Rightarrow> 'a obj \<Rightarrow> 'a obj" where
  "obj_update k v [] = []"
| "obj_update k v ((k', v') # r) =
     (if k = k' then (k, v) # r else (k', v') # obj_update k v r)"

fun insert_index :: "int \<Rightarrow> string \<Rightarrow> 'a \<Rightarrow> 'a obj \<Rightarrow> 'a obj" where
  "insert_index n k v [] = [(k, v)]"
| "insert_index n k v ((k', v') # r) =
     (case array_index k' of
        Some n' \<Rightarrow> (if n' < n then (k', v') # insert_index n k v r else (k, v) # (k', v') # r)
      | None \<Rightarrow> (k, v) # (k', v') # r)"

text \<open>The assignment \<^verbatim>\<open>ob[k] = v\<close>: an existing key keeps its place.\<close>

definition obj_set :: "'a obj \<Rightarrow> string \<Rightarrow> 'a \<Rightarrow> 'a obj" where
  "obj_set ob k v =
     (case map_of ob k of
        Some _ \<Rightarrow> obj_update k v ob
      | None \<Rightarrow> (case array_index k of
                  Some n \<Rightarrow> insert_index n k v ob
                | None \<Rightarrow> ob @ [(k, v)]))"

text \<open>The statement \<^verbatim>\<open>delete ob[k]\<close>.\<close>

definition obj_delete :: "'a obj \<Rightarrow> string \<Rightarrow> 'a obj" where
  "obj_delete ob k = filter (\<lambda>e. fst e \<noteq> k) ob"

text \<open>Truthiness of a value, as \<^verbatim>\<open>if (v)\<close> reads it.\<close>

fun truthy :: "json \<Rightarrow> bool" where
  "truthy JNull = False"
| "truthy (JBool b) = b"
| "truthy (JNum n) = (n \<noteq> 0)"
| "truthy (JStr s) = (s \<noteq> [])"
| "truthy (JArr _) = True"
| "truthy (JObj _) = True"

text \<open>
  The property read \<^verbatim>\<open>v[k]\<close> on a value that is not \<^verbatim>\<open>null\<close>: only objects have the
  properties this program asks for (\<^verbatim>\<open>description\<close>, \<^verbatim>\<open>element\<close>, \<^verbatim>\<open>properties\<close>);
  \<open>None\<close> is \<^verbatim>\<open>undefined\<close>.
\<close>

fun json_prop :: "json \<Rightarrow> string \<Rightarrow> json option" where
  "json_prop (JObj fs) k = map_of fs k"
| "json_prop _ k = None"

subsection \<open>Numbers as text\<close>

definition digit :: "nat \<Rightarrow> char" where
  "digit d = ''0123456789'' ! d"

function toString_nat :: "nat \<Rightarrow> string" where
  "toString_nat n = (if n < 10 then [digit n] else toString_nat (n div 10) @ [digit (n mod 10)])"
  by pat_completeness auto
termination
  by (relation "measure id") auto

declare toString_nat.simps [simp del]

definition toString_int :: "int \<Rightarrow> string" where
  "toString_int i = (if i < 0 then CHR ''-'' # toString_nat (nat (- i)) else toString_nat (nat i))"

text \<open>
  \<^verbatim>\<open>pad(m, width)\<close> with the default \<^verbatim>\<open>z = '0'\<close>:
  \<^verbatim>\<open>new Array(k + 1).join('0')\<close> is the string of \<open>k\<close> zeros.
\<close>

definition pad :: "nat \<Rightarrow> nat \<Rightarrow> string" where
  "pad m width =
     (let n = toString_nat m
      in if length n \<ge> width then n else replicate (width - length n) CHR ''0'' @ n)"

text \<open>The template string \<^verbatim>\<open>`example-${pad(m, width)}`\<close> of lines 586, 653 and 865.\<close>

definition example_name :: "nat \<Rightarrow> nat \<Rightarrow> string" where
  "example_name m width = ''example-'' @ pad m width"

text \<open>The number a string of decimal digits denotes.\<close>

definition decimal_value :: "string \<Rightarrow> nat" where
  "decimal_value s = foldl (\<lambda>a c. 10 * a + (of_char c - 48)) 0 s"

section \<open>The specification document\<close>

text \<open>
  An example \<^verbatim>\<open>{value: v}\<close> is held as its value \<open>v\<close>; \<open>mt_examples\<close> is the
  \<^verbatim>\<open>examples\<close> object of a media type (name to example), \<open>None\<close> when the property
  is absent.
\<close>

record parameter =
  p_description :: string
  p_in :: string
  p_name :: string
  p_required :: "bool option"
  p_schema :: json

record mediaType =
  mt_examples :: "json obj option"
  mt_schema :: "json option"

record response =
  r_description :: "string option"
  r_content :: "mediaType obj option"

record requestBody =
  rb_content :: "mediaType obj"

record meta =
  originalPath :: string
  element :: "json option"

record operation =
  operationId :: string
  summary :: string
  description :: json
  parameters :: "parameter list"
  responses :: "response obj"
  tags :: "string list"
  op_meta :: "meta option"
  requestBody :: "requestBody option"

section \<open>Response classifier\<close>

definition set_response :: "operation \<Rightarrow> string \<Rightarrow> string \<Rightarrow> operation" where
  "set_response specPath key d =
     specPath\<lparr>responses := obj_set (responses specPath) key \<lparr>r_description = Some d, r_content = None\<rparr>\<rparr>"

definition addResponse :: "int \<Rightarrow> string \<Rightarrow> operation \<Rightarrow> operation" where
  "addResponse status method specPath =
     (if status = 200 then
        (if method = ''get'' then set_response specPath ''200'' ''Success''
         else if method = ''delete'' then set_response specPath ''200'' ''Item deleted''
         else if method = ''patch'' then set_response specPath ''200'' ''Item updated''
         else if method = ''post'' then set_response specPath ''200'' ''Item created''
         else specPath)
      else if status = 201 then
        (if method = ''post'' then set_response specPath ''201'' ''Item created'' else specPath)
      else if status = 202 then
        (if method = ''post'' then set_response specPath ''202'' ''Item created'' else specPath)
      else if status = 204 then
        (if method = ''get'' then set_response specPath ''204'' ''Success''
         else if method = ''delete'' then set_response specPath ''204'' ''Item deleted''
         else if method = ''patch'' \<or> method = ''put'' then set_response specPath ''204'' ''Item updated''
         else if method = ''post'' then set_response specPath ''202'' ''Item created''
         else specPath)
      else if status = 400 then
        (if method = ''delete'' then set_response specPath ''400'' ''Deletion failed - item in use''
         else set_response specPath ''400'' ''Bad request'')
      else if status = 401 then set_response specPath ''401'' ''Unauthorized''
      else if status = 404 then set_response specPath ''404'' ''Item not found''
      else if status = 405 then set_response specPath ''405'' ''Not allowed''
      else specPath)"

text \<open>The operation that \<^verbatim>\<open>addMethod\<close> has just created has no responses yet.\<close>

definition fresh_operation :: "string \<Rightarrow> string \<Rightarrow> string \<Rightarrow> string \<Rightarrow> operation" where
  "fresh_operation oid summ tag orig =
     \<lparr>operationId = oid, summary = summ, description = JStr [], parameters = [],
      responses = [], tags = [tag],
      op_meta = Some \<lparr>originalPath = orig, element = Some (JStr [])\<rparr>,
      requestBody = None\<rparr>"

section \<open>Text and serialization\<close>

fun is_prefix :: "string \<Rightarrow> string \<Rightarrow> bool" where
  "is_prefix [] s = True"
| "is_prefix (c # cs) [] = False"
| "is_prefix (c # cs) (d # ds) = (c = d \<and> is_prefix cs ds)"

text \<open>\<^verbatim>\<open>s.includes(sub)\<close>.\<close>

fun str_includes :: "string \<Rightarrow> string \<Rightarrow> bool" where
  "str_includes [] sub = (sub = [])"
| "str_includes (c # cs) sub = (is_prefix sub (c # cs) \<or> str_includes cs sub)"

definition join :: "string \<Rightarrow> string list \<Rightarrow> string" where
  "join sep xs = concat (case xs of [] \<Rightarrow> [] | y # ys \<Rightarrow> y # map (\<lambda>x. sep @ x) ys)"

definition hex_digit :: "nat \<Rightarrow> char" where
  "hex_digit d = ''0123456789abcdef'' ! d"

text \<open>
  \<^verbatim>\<open>JSON.stringify\<close> without indentation. A string is quoted with the escapes of
  ECMAScript's \<^verbatim>\<open>QuoteJSONString\<close>: the quotation mark (0x22), the backslash (0x5C),
  the five short escapes, and \<^verbatim>\<open>\u00xx\<close> for the other control characters.
\<close>

definition quote_char :: "char \<Rightarrow> string" where
  "quote_char c =
     (let n = (of_char c :: nat) in
      if n = 34 then [CHR 0x5C, CHR 0x22]
      else if n = 92 then [CHR 0x5C, CHR 0x5C]
      else if n = 8 then [CHR 0x5C, CHR ''b'']
      else if n = 12 then [CHR 0x5C, CHR ''f'']
      else if n = 10 then [CHR 0x5C, CHR ''n'']
      else if n = 13 then [CHR 0x5C, CHR ''r'']
      else if n = 9 then [CHR 0x5C, CHR ''t'']
      else if n < 32 then [CHR 0x5C, CHR ''u'', CHR ''0'', CHR ''0'', hex_digit (n div 16), hex_digit (n mod 16)]
      else [c])"

definition quote :: "string \<Rightarrow> string" where
  "quote s = CHR 0x22 # concat (map quote_char s) @ [CHR 0x22]"

primrec JSON_stringify :: "json \<Rightarrow> string" where
  "JSON_stringify JNull = ''null''"
| "JSON_stringify (JBool b) = (if b then ''true'' else ''false'')"
| "JSON_stringify (JNum n) = toString_int n"
| "JSON_stringify (JStr s) = quote s"
| "JSON_stringify (JArr xs) = ''['' @ join '','' (map JSON_stringify xs) @ '']''"
| "JSON_stringify (JObj fs) =
     ''{'' @ join '','' (map (\<lambda>(k, t). quote k @ '':'' @ t) (map (map_prod id JSON_stringify) fs)) @ ''}''"

section \<open>Deep merge\<close>

text \<open>Line 670: the array strategy handed to the merge library.\<close>

definition overwriteMerge :: "json list \<Rightarrow> json list \<Rightarrow> json list" where
  "overwriteMerge destinationArray sourceArray = sourceArray"

text \<open>
  Modelled from the library: \<^verbatim>\<open>merge(target, source, {arrayMerge: overwriteMerge})\<close> of
  the npm package \<^verbatim>\<open>deepmerge\<close> (version 4.2) is not code of this repository. The model
  follows the library's algorithm on parsed JSON values. \<open>clone\<close> is
  \<^verbatim>\<open>cloneUnlessOtherwiseSpecified\<close>, \<open>mergeKeys\<close> the loop of \<^verbatim>\<open>mergeObject\<close> over the keys
  of the source; the result \<open>None\<close> of \<open>deepmerge\<close> is the \<^verbatim>\<open>TypeError\<close> of
  \<^verbatim>\<open>Object.keys(null)\<close>.
\<close>

fun isMergeableObject :: "json \<Rightarrow> bool" where
  "isMergeableObject (JArr _) = True"
| "isMergeableObject (JObj _) = True"
| "isMergeableObject _ = False"

fun isArray :: "json \<Rightarrow> bool" where
  "isArray (JArr _) = True"
| "isArray _ = False"

fun isObject :: "json \<Rightarrow> bool" where
  "isObject (JObj _) = True"
| "isObject _ = False"

text \<open>
  The names of the properties of \<^verbatim>\<open>Object.prototype\<close>. For an object \<open>target\<close> and such
  a name \<open>key\<close> that is not an own key of the target, \<^verbatim>\<open>key in target\<close> holds through the
  prototype, and the library's \<^verbatim>\<open>propertyIsUnsafe(target, key)\<close> makes the merge skip the
  key. On a target that is not an object \<^verbatim>\<open>key in target\<close> throws, which the library
  reads as false.
\<close>

definition prototype_members :: "string list" where
  "prototype_members =
     [''constructor'', ''__defineGetter__'', ''__defineSetter__'', ''hasOwnProperty'',
      ''__lookupGetter__'', ''__lookupSetter__'', ''isPrototypeOf'', ''propertyIsEnumerable'',
      ''toString'', ''valueOf'', ''__proto__'', ''toLocaleString'']"

definition propertyIsUnsafe :: "bool \<Rightarrow> json obj \<Rightarrow> string \<Rightarrow> bool" where
  "propertyIsUnsafe targetIsObject tp key =
     (targetIsObject \<and> map_of tp key = None \<and> key \<in> set prototype_members)"

text \<open>
  The assignment \<^verbatim>\<open>destination[key] = v\<close> on the fresh object of \<^verbatim>\<open>mergeObject\<close>: under
  the key \<^verbatim>\<open>__proto__\<close> it goes to the setter of the prototype and adds no own key. The
  model holds the own keys of an object and takes \<^verbatim>\<open>Object.prototype\<close> for the prototype of
  every object; the setter, given an object or \<^verbatim>\<open>null\<close>, replaces the prototype of the
  destination, which the model does not follow. \<open>proto_free\<close> below is true of the values that
  never reach the setter: those in which no object has an own key \<^verbatim>\<open>__proto__\<close>.
\<close>

definition dest_set :: "json obj \<Rightarrow> string \<Rightarrow> json \<Rightarrow> json obj" where
  "dest_set destination key v =
     (if key = ''__proto__'' then destination else obj_set destination key v)"

text \<open>
  The clone of an object is \<^verbatim>\<open>mergeObject({}, value)\<close>: every key naming a member of
  \<^verbatim>\<open>Object.prototype\<close> is unsafe for the empty target and is left out, at every depth; the
  clone of an array is \<^verbatim>\<open>overwriteMerge([], value)\<close>, the array itself.
\<close>

primrec clone :: "json \<Rightarrow> json" where
  "clone JNull = JNull"
| "clone (JBool b) = JBool b"
| "clone (JNum n) = JNum n"
| "clone (JStr s) = JStr s"
| "clone (JArr xs) = JArr (overwriteMerge [] xs)"
| "clone (JObj fs) =
     JObj (filter (\<lambda>e. fst e \<notin> set prototype_members) (map (map_prod id clone) fs))"

fun propsOf :: "json \<Rightarrow> json obj" where
  "propsOf (JObj fs) = fs"
| "propsOf _ = []"

text \<open>The first loop of \<^verbatim>\<open>mergeObject\<close>: every own key of a mergeable target, cloned.\<close>

definition cloneProps :: "json \<Rightarrow> json obj" where
  "cloneProps target =
     filter (\<lambda>e. fst e \<noteq> ''__proto__'') (map (map_prod id clone) (propsOf target))"

text \<open>The own keys of a string are its indices; each holds one character.\<close>

definition string_entries :: "string \<Rightarrow> json obj" where
  "string_entries s = zip (map toString_nat [0..<length s]) (map (\<lambda>c. JStr [c]) s)"

fun deepmerge :: "json \<Rightarrow> json \<Rightarrow> json option"
  and mergeKeys :: "bool \<Rightarrow> json obj \<Rightarrow> json obj \<Rightarrow> json obj \<Rightarrow> json obj option" where
  "deepmerge target (JArr s) =
     Some (case target of JArr t \<Rightarrow> JArr (overwriteMerge t s) | _ \<Rightarrow> clone (JArr s))"
| "deepmerge target JNull = (if isArray target then Some JNull else None)"
| "deepmerge target (JBool b) =
     Some (if isArray target then JBool b else JObj (cloneProps target))"
| "deepmerge target (JNum n) =
     Some (if isArray target then JNum n else JObj (cloneProps target))"
| "deepmerge target (JStr s) =
     Some (if isArray target then JStr s
           else JObj (foldl (\<lambda>d (k, v). dest_set d k v) (cloneProps target) (string_entries s)))"
| "deepmerge target (JObj fs) =
     (if isArray target then Some (clone (JObj fs))
      else map_option JObj (mergeKeys (isObject target) (propsOf target) (cloneProps target) fs))"
| "mergeKeys targetIsObject tp destination [] = Some destination"
| "mergeKeys targetIsObject tp destination ((k, sv) # r) =
     (if propertyIsUnsafe targetIsObject tp k then mergeKeys targetIsObject tp destination r
      else (case (case map_of tp k of
                    Some tv \<Rightarrow> (if isMergeableObject sv then deepmerge tv sv else Some (clone sv))
                  | None \<Rightarrow> Some (clone sv)) of
              None \<Rightarrow> None
            | Some v \<Rightarrow> mergeKeys targetIsObject tp (dest_set destination k v) r))"

text \<open>No object of the value, at any depth, has an own key \<^verbatim>\<open>__proto__\<close>.\<close>

fun proto_free :: "json \<Rightarrow> bool" where
  "proto_free (JArr xs) = list_all proto_free xs"
| "proto_free (JObj fs) = list_all (\<lambda>e. fst e \<noteq> ''__proto__'' \<and> proto_free (snd e)) fs"
| "proto_free _ = True"


section \<open>Example merge engine\<close>

text \<open>
  A body of the capture (\<^verbatim>\<open>postData\<close> of a request, \<^verbatim>\<open>content\<close> of a response).
  \<^verbatim>\<open>JSON.parse\<close> and the base64 decoding belong to the runtime: \<open>b_parsed\<close> is what
  \<^verbatim>\<open>JSON.parse\<close> returns on the decoded \<open>b_text\<close>, and \<open>None\<close> when it throws.
\<close>

record body =
  b_text :: "string option"
  b_parsed :: "json option"

definition text_truthy :: "string option \<Rightarrow> bool" where
  "text_truthy t = (case t of None \<Rightarrow> False | Some s \<Rightarrow> s \<noteq> [])"

definition json_media :: mediaType where
  "json_media =
     \<lparr>mt_examples = Some [(''example-0001'', JObj [])],
      mt_schema = Some (JObj [(''properties'', JObj []), (''type'', JStr ''object'')])\<rparr>"

definition binary_media :: mediaType where
  "binary_media =
     \<lparr>mt_examples = None,
      mt_schema = Some (JObj [(''properties'',
          JObj [(''filename'', JObj [(''description'', JStr []), (''format'', JStr ''binary''),
                                      (''type'', JStr ''string'')])]),
        (''type'', JStr ''object'')])\<rparr>"

text \<open>
  The part both merge functions share (lines 575-588 and 642-655): the duplicate check, then
  the merge into \<^verbatim>\<open>example-0001\<close> and the new example. The result \<open>None\<close> of
  \<open>fold_example\<close> is an exception thrown before any assignment (no \<^verbatim>\<open>example-0001\<close>
  to read, or the merge throws).
\<close>

definition is_duplicate :: "json obj \<Rightarrow> json \<Rightarrow> bool" where
  "is_duplicate examples data =
     list_ex (\<lambda>e. JSON_stringify data = JSON_stringify (snd e)) examples"

definition fold_example :: "json obj \<Rightarrow> json \<Rightarrow> json obj option" where
  "fold_example examples data =
     (case obj_get examples ''example-0001'' of
        None \<Rightarrow> None
      | Some acc \<Rightarrow>
          (case deepmerge acc data of
             None \<Rightarrow> None
           | Some merged \<Rightarrow>
               (let examples1 = obj_set examples ''example-0001'' merged
                in Some (obj_set examples1 (example_name (length examples1 + 1) 4) data))))"

definition set_request_examples :: "operation \<Rightarrow> requestBody \<Rightarrow> mediaType \<Rightarrow> json obj \<Rightarrow> operation" where
  "set_request_examples specMethod rb mt examples =
     specMethod\<lparr>requestBody :=
       Some (rb\<lparr>rb_content := obj_set (rb_content rb) ''application/json'' (mt\<lparr>mt_examples := Some examples\<rparr>)\<rparr>)\<rparr>"

definition mergeRequestExample :: "operation \<Rightarrow> body \<Rightarrow> operation" where
  "mergeRequestExample specMethod postData =
     (if text_truthy (b_text postData) then
        (case b_parsed postData of
           None \<Rightarrow> specMethod
         | Some data \<Rightarrow>
             (let rb = (case requestBody specMethod of
                          None \<Rightarrow> \<lparr>rb_content = [(''application/json'', json_media)]\<rparr>
                        | Some rb0 \<Rightarrow> rb0);
                  specMethod1 = specMethod\<lparr>requestBody := Some rb\<rparr>
              in (case obj_get (rb_content rb) ''application/json'' of
                    None \<Rightarrow> specMethod1
                  | Some mt \<Rightarrow>
                      (case mt_examples mt of
                         None \<Rightarrow> specMethod1
                       | Some examples \<Rightarrow>
                           (if is_duplicate examples data then specMethod1
                            else (case fold_example examples data of
                                    None \<Rightarrow> specMethod1
                                  | Some examples' \<Rightarrow>
                                      set_request_examples specMethod1 rb mt examples'))))))
      else
        (case requestBody specMethod of
           None \<Rightarrow> specMethod\<lparr>requestBody := Some \<lparr>rb_content = [(''multipart/form-data'', binary_media)]\<rparr>\<rparr>
         | Some _ \<Rightarrow> specMethod))"

text \<open>\<^verbatim>\<open>delete data['traceback']\<close> and \<^verbatim>\<open>Object.keys(data).length\<close> on a value that is not null.\<close>

fun delete_prop :: "json \<Rightarrow> string \<Rightarrow> json" where
  "delete_prop (JObj fs) k = JObj (obj_delete fs k)"
| "delete_prop v k = v"

fun keys_length :: "json \<Rightarrow> nat" where
  "keys_length (JObj fs) = length fs"
| "keys_length (JArr xs) = length xs"
| "keys_length (JStr s) = length s"
| "keys_length _ = 0"

definition set_response_examples ::
  "operation \<Rightarrow> string \<Rightarrow> response \<Rightarrow> mediaType obj \<Rightarrow> mediaType \<Rightarrow> json obj \<Rightarrow> operation" where
  "set_response_examples specMethod statusString r c mt examples =
     specMethod\<lparr>responses := obj_set (responses specMethod) statusString
       (r\<lparr>r_content := Some (obj_set c ''application/json'' (mt\<lparr>mt_examples := Some examples\<rparr>))\<rparr>)\<rparr>"

definition set_description :: "json \<Rightarrow> operation \<Rightarrow> operation" where
  "set_description data specMethod =
     (case json_prop data ''description'' of
        None \<Rightarrow> specMethod
      | Some d \<Rightarrow> (if truthy d then specMethod\<lparr>description := d\<rparr> else specMethod))"

definition set_element :: "json \<Rightarrow> operation \<Rightarrow> operation" where
  "set_element data specMethod =
     (case json_prop data ''element'' of
        None \<Rightarrow> specMethod
      | Some e \<Rightarrow>
          (if truthy e then
             (case op_meta specMethod of
                None \<Rightarrow> specMethod
              | Some m \<Rightarrow> specMethod\<lparr>op_meta := Some (m\<lparr>element := Some e\<rparr>)\<rparr>)
           else specMethod))"

definition mergeResponseExample ::
  "operation \<Rightarrow> string \<Rightarrow> body \<Rightarrow> string \<Rightarrow> string \<Rightarrow> operation" where
  "mergeResponseExample specMethod statusString content method filteredUrl =
     (case b_parsed content of
        None \<Rightarrow> specMethod
      | Some JNull \<Rightarrow> specMethod
      | Some parsed \<Rightarrow>
          (let data = delete_prop parsed ''traceback''
           in if 1 < keys_length data then
                (case obj_get (responses specMethod) statusString of
                   None \<Rightarrow> specMethod
                 | Some r \<Rightarrow>
                     (let c = (case r_content r of
                                 None \<Rightarrow> [(''application/json'', json_media)]
                               | Some c0 \<Rightarrow> c0);
                          specMethod1 = specMethod\<lparr>responses :=
                            obj_set (responses specMethod) statusString (r\<lparr>r_content := Some c\<rparr>)\<rparr>
                      in (case obj_get c ''application/json'' of
                            None \<Rightarrow> specMethod1
                          | Some mt \<Rightarrow>
                              (case mt_examples mt of
                                 None \<Rightarrow> specMethod1
                               | Some examples \<Rightarrow>
                                   (if is_duplicate examples data then specMethod1
                                    else (case fold_example examples data of
                                            None \<Rightarrow> specMethod1
                                          | Some examples' \<Rightarrow>
                                              set_element data (set_description data
                                                (set_response_examples specMethod1 statusString r c mt examples'))))))))
              else specMethod))"

text \<open>
  The example pool of a slot, as lines 573 and 640 (and, with optional chaining, lines 722
  and 750) read it: \<^verbatim>\<open>requestBody.content["application/json"].examples\<close> and
  \<^verbatim>\<open>responses[status].content["application/json"].examples\<close>; \<open>None\<close> when a link of
  the chain is missing.
\<close>

definition request_pool :: "operation \<Rightarrow> json obj option" where
  "request_pool specMethod =
     (case requestBody specMethod of
        None \<Rightarrow> None
      | Some rb \<Rightarrow>
          (case obj_get (rb_content rb) ''application/json'' of
             None \<Rightarrow> None
           | Some mt \<Rightarrow> mt_examples mt))"

definition response_pool :: "operation \<Rightarrow> string \<Rightarrow> json obj option" where
  "response_pool specMethod statusString =
     (case obj_get (responses specMethod) statusString of
        None \<Rightarrow> None
      | Some r \<Rightarrow>
          (case r_content r of
             None \<Rightarrow> None
           | Some c \<Rightarrow>
               (case obj_get c ''application/json'' of
                  None \<Rightarrow> None
                | Some mt \<Rightarrow> mt_examples mt)))"

text \<open>
  The left fold of a list of values under the merge, from an accumulator; \<open>None\<close> when a
  merge throws.
\<close>

fun merge_all :: "json \<Rightarrow> json list \<Rightarrow> json option" where
  "merge_all acc [] = Some acc"
| "merge_all acc (v # vs) =
     (case deepmerge acc v of None \<Rightarrow> None | Some merged \<Rightarrow> merge_all merged vs)"

text \<open>
  The pool whose accumulator \<^verbatim>\<open>example-0001\<close> is \<open>acc\<close> and whose individual examples
  are \<open>ind\<close>, in order, under the names \<^verbatim>\<open>example-0002\<close>, \<^verbatim>\<open>example-0003\<close>, ...
\<close>

definition pool_shape :: "json \<Rightarrow> json list \<Rightarrow> json obj" where
  "pool_shape acc ind =
     (''example-0001'', acc) # zip (map (\<lambda>i. example_name (i + 2) 4) [0..<length ind]) ind"

text \<open>
  The fold of section 4.4 of the specification, on a pool given by its accumulator and the list
  of its individual examples: a value whose serialization is that of a stored example is
  discarded; otherwise it is merged into the accumulator and appended (and left out when the
  merge throws).
\<close>

definition foldExample :: "json \<times> json list \<Rightarrow> json \<Rightarrow> json \<times> json list" where
  "foldExample pool v =
     (if is_duplicate (pool_shape (fst pool) (snd pool)) v then pool
      else (case deepmerge (fst pool) v of
              None \<Rightarrow> pool
            | Some merged \<Rightarrow> (merged, snd pool @ [v])))"

section \<open>Example curation validator\<close>

text \<open>
  The renumbering loop of lines 864-868, from index \<open>i\<close>; an entry of
  \<open>publishExamples\<close> is again the value of \<^verbatim>\<open>{value: v}\<close>.
\<close>

fun renumber :: "nat \<Rightarrow> nat \<Rightarrow> json list \<Rightarrow> json obj \<times> json option \<Rightarrow> json obj \<times> json option" where
  "renumber i padWidth [] st = st"
| "renumber i padWidth (x # xs) (publishExamples, firstExample) =
     renumber (Suc i) padWidth xs
       (obj_set publishExamples (example_name (i + 1) padWidth) x,
        (case firstExample of
           None \<Rightarrow> Some x
         | Some f \<Rightarrow> (if truthy f then Some f else Some x)))"

record exampleStats =
  allExamples :: "string list"
  publishExamples :: "json obj"
  firstExample :: "json option"

definition validateExampleList :: "json obj \<Rightarrow> error + exampleStats" where
  "validateExampleList exampleObject =
     (let exampleCount = length exampleObject;
          publishExamplesArray = map snd (filter (\<lambda>e. str_includes (fst e) ''gexample'') exampleObject);
          gexampleCount = length publishExamplesArray
      in if exampleCount \<noteq> 0 \<and> gexampleCount = 0 then Inl (Exit 1)
         else (let padWidth = length publishExamplesArray div 10 + 1;
                   st = renumber 0 padWidth publishExamplesArray ([], None)
               in Inr \<lparr>allExamples = map (\<lambda>e. JSON_stringify (snd e)) exampleObject,
                       publishExamples = fst st,
                       firstExample = snd st\<rparr>))"

section \<open>Path normalizer\<close>

text \<open>
  The configuration. \<open>pathReplace\<close> and \<open>cfg_replace\<close> are objects, listed in the order
  \<^verbatim>\<open>for ... in\<close> visits their keys; \<open>cfg_tags\<close> is the array \<^verbatim>\<open>tags\<close>.
\<close>

record config =
  apiBasePath :: string
  pathReplace :: "string obj"
  cfg_replace :: "string obj"
  cfg_tags :: "string list list"

text \<open>
  The regular expressions of the configuration are run by the runtime:
  \<open>replaceAll key r s\<close> stands for \<^verbatim>\<open>s.replace(new RegExp(key, 'g'), r)\<close>, and is
  \<open>None\<close> when \<^verbatim>\<open>new RegExp(key, 'g')\<close> throws a \<^verbatim>\<open>SyntaxError\<close>. Lines 400-410.
\<close>

type_synonym regex_engine = "string \<Rightarrow> string \<Rightarrow> string \<Rightarrow> string option"

fun filterUrl_loop :: "regex_engine \<Rightarrow> string obj \<Rightarrow> string \<Rightarrow> error + string" where
  "filterUrl_loop replaceAll [] filteredUrl = Inr filteredUrl"
| "filterUrl_loop replaceAll ((key, r) # rules) filteredUrl =
     (case replaceAll key r filteredUrl of
        None \<Rightarrow> Inl SyntaxError
      | Some replaced \<Rightarrow> filterUrl_loop replaceAll rules replaced)"

definition filterUrl :: "regex_engine \<Rightarrow> config \<Rightarrow> string \<Rightarrow> error + string" where
  "filterUrl replaceAll config inputUrl = filterUrl_loop replaceAll (pathReplace config) inputUrl"

text \<open>
  What the runtime computes for a pattern without metacharacters and a replacement without
  \<^verbatim>\<open>$\<close>: every occurrence of the pattern, found from left to right without overlap, is
  replaced; the empty pattern matches before every character and at the end.
\<close>

function replace_literal :: "string \<Rightarrow> string \<Rightarrow> string \<Rightarrow> string" where
  "replace_literal key r s =
     (if key = [] then concat (map (\<lambda>c. r @ [c]) s) @ r
      else if s = [] then []
      else if is_prefix key s then r @ replace_literal key r (drop (length key) s)
      else hd s # replace_literal key r (tl s))"
  by pat_completeness auto
termination
  by (relation "measure (\<lambda>(key, r, s). length s)") auto

declare replace_literal.simps [simp del]

definition literal_engine :: regex_engine where
  "literal_engine key r s = Some (replace_literal key r s)"

section \<open>Operation identity\<close>

text \<open>
  \<^verbatim>\<open>toLowerCase\<close>, \<^verbatim>\<open>toUpperCase\<close> on the letters of ASCII; \<^verbatim>\<open>capitalize\<close> of lines
  214-217 on a string; \<^verbatim>\<open>s.split(sep)\<close> for a separator of one character.
\<close>

definition lower_char :: "char \<Rightarrow> char" where
  "lower_char c =
     (case map_of (zip ''ABCDEFGHIJKLMNOPQRSTUVWXYZ'' ''abcdefghijklmnopqrstuvwxyz'') c of
        Some d \<Rightarrow> d | None \<Rightarrow> c)"

definition upper_char :: "char \<Rightarrow> char" where
  "upper_char c =
     (case map_of (zip ''abcdefghijklmnopqrstuvwxyz'' ''ABCDEFGHIJKLMNOPQRSTUVWXYZ'') c of
        Some d \<Rightarrow> d | None \<Rightarrow> c)"

definition toLowerCase :: "string \<Rightarrow> string" where
  "toLowerCase s = map lower_char s"

definition capitalize :: "string \<Rightarrow> string" where
  "capitalize s = (case s of [] \<Rightarrow> [] | c # cs \<Rightarrow> upper_char c # cs)"

fun split :: "char \<Rightarrow> string \<Rightarrow> string list" where
  "split sep [] = [[]]"
| "split sep (c # cs) =
     (if c = sep then [] # split sep cs
      else (case split sep cs of [] \<Rightarrow> [[c]] | part # parts \<Rightarrow> (c # part) # parts))"

text \<open>\<^verbatim>\<open>s.replace(/_id/, r)\<close>, without the flag \<^verbatim>\<open>g\<close>: the first occurrence only.\<close>

fun replace_first :: "string \<Rightarrow> string \<Rightarrow> string \<Rightarrow> string" where
  "replace_first key r [] = (if key = [] then r else [])"
| "replace_first key r (c # cs) =
     (if is_prefix key (c # cs) then r @ drop (length key) (c # cs)
      else c # replace_first key r cs)"

text \<open>\<^verbatim>\<open>s.replace(/[{}]|_id/g, "")\<close> of line 361.\<close>

function strip_braces_id :: "string \<Rightarrow> string" where
  "strip_braces_id s =
     (if s = [] then []
      else if hd s = CHR ''{'' \<or> hd s = CHR ''}'' then strip_braces_id (tl s)
      else if is_prefix ''_id'' s then strip_braces_id (drop 3 s)
      else hd s # strip_braces_id (tl s))"
  by pat_completeness auto
termination
  by (relation "measure length") auto

declare strip_braces_id.simps [simp del]

text \<open>
  \<^verbatim>\<open>s.replace(/(^\/|\/$|{|})/g, "").replace(/\//g, "-")\<close> of lines 74 and 898: a slash
  at the start, a slash at the end and every brace go; the slashes left become hyphens.
\<close>

definition drop_leading_slash :: "string \<Rightarrow> string" where
  "drop_leading_slash s = (case s of [] \<Rightarrow> [] | c # cs \<Rightarrow> (if c = CHR ''/'' then cs else s))"

definition drop_trailing_slash :: "string \<Rightarrow> string" where
  "drop_trailing_slash s = (if s \<noteq> [] \<and> last s = CHR ''/'' then butlast s else s)"

definition operation_id :: "string \<Rightarrow> string \<Rightarrow> string" where
  "operation_id method filteredUrl =
     method @ ''-'' @
       map (\<lambda>c. if c = CHR ''/'' then CHR ''-'' else c)
         (filter (\<lambda>c. c \<noteq> CHR ''{'' \<and> c \<noteq> CHR ''}'')
            (drop_trailing_slash (drop_leading_slash filteredUrl)))"

text \<open>
  Lines 357-393. \<^verbatim>\<open>pluralize\<close> is a library: \<open>pluralize w None\<close> stands for
  \<^verbatim>\<open>pluralize(w)\<close> and \<open>pluralize w (Some 1)\<close> for \<^verbatim>\<open>pluralize(w, 1)\<close>.
\<close>

definition deriveSummary :: "(string \<Rightarrow> nat option \<Rightarrow> string) \<Rightarrow> string \<Rightarrow> string \<Rightarrow> string" where
  "deriveSummary pluralize method path =
     (let pathParts = split CHR ''/'' path;
          lastParam = (if 1 < length pathParts then pathParts ! (length pathParts - 2) else []);
          lastLastParam = (if 3 < length pathParts then pathParts ! (length pathParts - 4) else []);
          ob = (if str_includes lastParam ''_id'' then strip_braces_id lastParam else []);
          sep = (if lastLastParam \<noteq> [] then '' '' else [])
      in if lastParam = ''login'' then ''Log in''
         else if lastParam = ''logout'' then ''Log out''
         else if ob \<noteq> [] \<and> method = ''get'' then capitalize ob @ '' details''
         else if ob \<noteq> [] \<and> method = ''post'' then ''Create '' @ ob
         else if ob \<noteq> [] \<and> (method = ''patch'' \<or> method = ''put'') then ''Update '' @ ob
         else if ob \<noteq> [] \<and> method = ''delete'' then ''Delete '' @ ob
         else if method = ''get'' then
           ''List '' @ pluralize lastLastParam (Some 1) @ sep @ pluralize lastParam None
         else if method = ''post'' then
           ''Create '' @ pluralize lastLastParam (Some 1) @ sep @ pluralize lastParam (Some 1)
         else if method = ''put'' \<or> method = ''patch'' then
           ''Update '' @ pluralize lastLastParam (Some 1) @ sep @ pluralize lastParam None
         else if method = ''delete'' then
           ''Delete '' @ pluralize lastLastParam (Some 1) @ sep @ pluralize lastParam None
         else ''SUMMARY'')"

text \<open>
  Lines 394-399. An empty rule has no \<^verbatim>\<open>item[0]\<close>: \<^verbatim>\<open>includes(undefined)\<close> looks for
  the text \<^verbatim>\<open>undefined\<close>, and \<^verbatim>\<open>capitalize(undefined)\<close> is the empty string.
\<close>

fun deriveTag_loop :: "string \<Rightarrow> string list list \<Rightarrow> string" where
  "deriveTag_loop path [] = ''Miscellaneous''"
| "deriveTag_loop path ([] # rules) =
     (if str_includes path ''undefined'' then [] else deriveTag_loop path rules)"
| "deriveTag_loop path ([keyword] # rules) =
     (if str_includes path keyword then capitalize keyword else deriveTag_loop path rules)"
| "deriveTag_loop path ((keyword # display # others) # rules) =
     (if str_includes path keyword then display else deriveTag_loop path rules)"

definition deriveTag :: "string \<Rightarrow> config \<Rightarrow> string" where
  "deriveTag path config = deriveTag_loop path (cfg_tags config)"

section \<open>Traffic ingestion\<close>

text \<open>
  A path item holds the array \<^verbatim>\<open>parameters\<close> and one operation per method. The state of
  the loop of \<^verbatim>\<open>generateSpec\<close> (lines 444-493) is \<^verbatim>\<open>spec.paths\<close> and
  \<^verbatim>\<open>methodList\<close>; the entries are taken in the order the loop visits them, and the
  state is the one the loop leaves, before the paths are sorted and the global replacements
  applied to the serialized document.
\<close>

datatype pathEntry = Params "parameter list" | Op operation

type_synonym pathItem = "pathEntry obj"

record genState =
  g_paths :: "pathItem obj"
  g_methodList :: "string list"

record queryParam =
  q_name :: string
  q_value :: string

record harRequest =
  req_method :: string
  req_url :: string
  req_queryString :: "queryParam list"
  req_bodySize :: int
  req_postData :: "body option"

record harResponse =
  res_status :: int
  res_bodySize :: int
  res_content :: body

record entry =
  e_request :: harRequest
  e_response :: harResponse

text \<open>
  \<^verbatim>\<open>filteredUrl.match(/{.*?}/g)\<close> of line 99: from an opening brace, the shortest run of
  characters other than line terminators up to a closing brace.
\<close>

definition brace_inner :: "char \<Rightarrow> bool" where
  "brace_inner c = (c \<noteq> CHR ''}'' \<and> c \<noteq> CHR 0x0A \<and> c \<noteq> CHR 0x0D)"

function match_params :: "string \<Rightarrow> string list" where
  "match_params s =
     (if s = [] then []
      else if hd s = CHR ''{'' then
        (case dropWhile brace_inner (tl s) of
           [] \<Rightarrow> match_params (tl s)
         | d # rest \<Rightarrow>
             (if d = CHR ''}'' then (hd s # takeWhile brace_inner (tl s) @ [d]) # match_params rest
              else match_params (tl s)))
      else match_params (tl s))"
  by pat_completeness auto
termination
proof (relation "measure length")
  show "wf (measure length)" by simp
next
  fix s :: string and d rest
  assume "s \<noteq> []" and "dropWhile brace_inner (tl s) = d # rest"
  then have "length (d # rest) \<le> length (tl s)"
    by (metis length_dropWhile_le)
  with \<open>s \<noteq> []\<close> show "(rest, s) \<in> measure length"
    by (cases s) auto
qed auto

declare match_params.simps [simp del]

definition path_parameter :: "string \<Rightarrow> parameter" where
  "path_parameter matched =
     (let variable = filter (\<lambda>c. c \<noteq> CHR ''{'' \<and> c \<noteq> CHR ''}'') matched;
          variableType = replace_first ''_id'' [] variable
      in \<lparr>p_description = ''Unique ID of the '' @ variableType @ '' you are working with'',
          p_in = ''path'', p_name = variable, p_required = Some True,
          p_schema = JObj [(''type'', JStr ''string'')]\<rparr>)"

definition addPath :: "string \<Rightarrow> pathItem obj \<Rightarrow> pathItem obj" where
  "addPath filteredUrl paths =
     obj_set paths filteredUrl [(''parameters'', Params (map path_parameter (match_params filteredUrl)))]"

text \<open>Lines 72-94, on the path item of \<open>filteredUrl\<close>.\<close>

definition addMethod ::
  "(string \<Rightarrow> nat option \<Rightarrow> string) \<Rightarrow> string \<Rightarrow> string \<Rightarrow> string \<Rightarrow> config \<Rightarrow>
   pathItem \<Rightarrow> string list \<Rightarrow> pathItem \<times> string list" where
  "addMethod pluralize method filteredUrl originalUrl config pathItem methodList =
     (let summ = deriveSummary pluralize method filteredUrl;
          tag = deriveTag filteredUrl config
      in (obj_set pathItem method
            (Op (fresh_operation (operation_id method filteredUrl) summ tag originalUrl)),
          methodList @ [tag @ [CHR 0x09] @ filteredUrl @ [CHR 0x09] @ method @ [CHR 0x09] @ summ]))"

definition query_parameter :: "queryParam \<Rightarrow> parameter" where
  "query_parameter param =
     \<lparr>p_description = q_name param, p_in = ''query'', p_name = q_name param, p_required = None,
      p_schema = JObj [(''type'', JStr ''string''), (''default'', JStr (q_value param)),
                       (''example'', JStr (q_value param))]\<rparr>"

definition addQueryStringParams :: "operation \<Rightarrow> queryParam list \<Rightarrow> operation" where
  "addQueryStringParams specMethod harParams =
     (let methodQueryParameters = map p_name (filter (\<lambda>param. p_in param = ''query'') (parameters specMethod))
      in specMethod\<lparr>parameters := parameters specMethod @
           map query_parameter (filter (\<lambda>param. q_name param \<notin> set methodQueryParameters) harParams)\<rparr>)"

text \<open>
  The body of the loop, lines 444-493, for one captured transaction. The \<^verbatim>\<open>TypeError\<close>s
  are those no \<^verbatim>\<open>try\<close> encloses: \<^verbatim>\<open>specMethod.meta\<close> missing (also when the method is
  named \<^verbatim>\<open>parameters\<close>, whose entry is the array), and \<^verbatim>\<open>postData\<close> missing at line 550.
\<close>

definition update_operation :: "operation \<Rightarrow> entry \<Rightarrow> string \<Rightarrow> string \<Rightarrow> error + operation" where
  "update_operation specMethod0 item method filteredUrl =
     (case op_meta specMethod0 of
        None \<Rightarrow> Inl TypeError
      | Some m \<Rightarrow>
          (let specMethod1 = specMethod0\<lparr>op_meta := Some (m\<lparr>originalPath := req_url (e_request item)\<rparr>)\<rparr>;
               specMethod2 = addResponse (res_status (e_response item)) method specMethod1;
               specMethod3 = addQueryStringParams specMethod2 (req_queryString (e_request item))
           in (case (if 0 < req_bodySize (e_request item) \<and> res_status (e_response item) < 400
                     then (case req_postData (e_request item) of
                             None \<Rightarrow> Inl TypeError
                           | Some postData \<Rightarrow> Inr (mergeRequestExample specMethod3 postData))
                     else Inr specMethod3) of
                 Inl e \<Rightarrow> Inl e
               | Inr specMethod4 \<Rightarrow>
                   Inr (if 0 < res_bodySize (e_response item)
                        then mergeResponseExample specMethod4
                               (toString_int (res_status (e_response item)))
                               (res_content (e_response item)) method filteredUrl
                        else specMethod4))))"

definition processEntry ::
  "regex_engine \<Rightarrow> (string \<Rightarrow> nat option \<Rightarrow> string) \<Rightarrow> config \<Rightarrow> entry \<Rightarrow> genState \<Rightarrow>
   error + genState" where
  "processEntry replaceAll pluralize config item st =
     (if \<not> str_includes (req_url (e_request item)) (apiBasePath config) then Inr st
      else (case filterUrl replaceAll config (req_url (e_request item)) of
              Inl e \<Rightarrow> Inl e
            | Inr filteredUrl \<Rightarrow>
                (if filteredUrl = [] then Inr st
                 else (let paths1 = (case obj_get (g_paths st) filteredUrl of
                                       None \<Rightarrow> addPath filteredUrl (g_paths st)
                                     | Some _ \<Rightarrow> g_paths st);
                           pathItem1 = (case obj_get paths1 filteredUrl of None \<Rightarrow> [] | Some it \<Rightarrow> it);
                           method = toLowerCase (req_method (e_request item));
                           added = (case obj_get pathItem1 method of
                                      None \<Rightarrow> addMethod pluralize method filteredUrl
                                                (req_url (e_request item)) config pathItem1 (g_methodList st)
                                    | Some _ \<Rightarrow> (pathItem1, g_methodList st))
                       in (case obj_get (fst added) method of
                             None \<Rightarrow> Inl TypeError
                           | Some (Params _) \<Rightarrow> Inl TypeError
                           | Some (Op specMethod0) \<Rightarrow>
                               (case update_operation specMethod0 item method filteredUrl of
                                  Inl e \<Rightarrow> Inl e
                                | Inr specMethod \<Rightarrow>
                                    Inr \<lparr>g_paths = obj_set paths1 filteredUrl
                                                      (obj_set (fst added) method (Op specMethod)),
                                         g_methodList = snd added\<rparr>))))))"

fun process_entries ::
  "regex_engine \<Rightarrow> (string \<Rightarrow> nat option \<Rightarrow> string) \<Rightarrow> config \<Rightarrow> entry list \<Rightarrow> genState \<Rightarrow>
   error + genState" where
  "process_entries replaceAll pluralize config [] st = Inr st"
| "process_entries replaceAll pluralize config (item # items) st =
     (case processEntry replaceAll pluralize config item st of
        Inl e \<Rightarrow> Inl e
      | Inr st' \<Rightarrow> process_entries replaceAll pluralize config items st')"

text \<open>The request body slot of the operation at a path and method, \<open>None\<close> when there is none.\<close>

definition request_body_in :: "pathItem \<Rightarrow> string \<Rightarrow> requestBody option" where
  "request_body_in pathItem method =
     (case obj_get pathItem method of
        Some (Op specMethod) \<Rightarrow> requestBody specMethod
      | _ \<Rightarrow> None)"

definition request_body_at :: "genState \<Rightarrow> string \<Rightarrow> string \<Rightarrow> requestBody option" where
  "request_body_at st path method =
     (case obj_get (g_paths st) path of
        None \<Rightarrow> None
      | Some pathItem \<Rightarrow> request_body_in pathItem method)"

section \<open>Spec reconciler\<close>

text \<open>
  The curated example file (\<^verbatim>\<open>ExampleFile\<close>, lines 17-30) and the specification document.
  Schema inference is external: \<open>quicktypeJSON typeName samples\<close> stands for the awaited
  result of lines 48-70 with the target \<^verbatim>\<open>schema\<close> (\<open>None\<close> when the promise rejects),
  and \<open>toOpenApiSchema\<close> for the library function of that name.
\<close>

record curatedOperation =
  c_request :: "json obj"
  c_response :: "(json obj) obj"

type_synonym exampleFile = "(curatedOperation obj) obj"

record openApiSpec =
  openapi :: json
  info :: json
  servers :: json
  paths :: "pathItem obj"

definition element_schema :: "json \<Rightarrow> json \<Rightarrow> string \<Rightarrow> json" where
  "element_schema jsonSchema props ref =
     (case jsonSchema of
        JObj fs \<Rightarrow>
          JObj (obj_set fs ''properties''
                  (case props of
                     JObj ps \<Rightarrow> JObj (obj_set ps ''element'' (JObj [(''$ref'', JStr ref)]))
                   | _ \<Rightarrow> props))
      | _ \<Rightarrow> jsonSchema)"

text \<open>Lines 922-941 and 957-976.\<close>

definition element_ref :: "json \<Rightarrow> json option \<Rightarrow> error + json" where
  "element_ref jsonSchema first =
     (case jsonSchema of
        JNull \<Rightarrow> Inl TypeError
      | _ \<Rightarrow>
          (case json_prop jsonSchema ''properties'' of
             None \<Rightarrow> Inr jsonSchema
           | Some props \<Rightarrow>
               (case json_prop props ''element'' of
                  None \<Rightarrow> Inr jsonSchema
                | Some el \<Rightarrow>
                    (if \<not> truthy el then Inr jsonSchema
                     else (case first of
                             None \<Rightarrow> Inl TypeError
                           | Some JNull \<Rightarrow> Inl TypeError
                           | Some f \<Rightarrow>
                               (case json_prop f ''element'' of
                                  Some (JStr kind) \<Rightarrow>
                                    (if kind = ''shoji:entity'' then
                                       Inr (element_schema jsonSchema props ''#/components/schemas/Shoji-entity-element'')
                                     else if kind = ''shoji:catalog'' then
                                       Inr (element_schema jsonSchema props ''#/components/schemas/Shoji-catalog-element'')
                                     else if kind = ''shoji:view'' then
                                       Inr (element_schema jsonSchema props ''#/components/schemas/Shoji-view-element'')
                                     else Inr jsonSchema)
                                | _ \<Rightarrow> Inr jsonSchema))))))"

text \<open>Validation, inference and the element reference of one slot with examples.\<close>

definition slot_examples ::
  "(string \<Rightarrow> string list \<Rightarrow> json option) \<Rightarrow> string \<Rightarrow> json obj \<Rightarrow> error + json \<times> json obj" where
  "slot_examples quicktypeJSON typeName examples =
     (case validateExampleList examples of
        Inl e \<Rightarrow> Inl e
      | Inr stats \<Rightarrow>
          (case quicktypeJSON typeName (allExamples stats) of
             None \<Rightarrow> Inl InferenceError
           | Some jsonSchema \<Rightarrow>
               (case element_ref jsonSchema (firstExample stats) of
                  Inl e \<Rightarrow> Inl e
                | Inr jsonSchema' \<Rightarrow> Inr (jsonSchema', publishExamples stats))))"

definition empty_media :: mediaType where
  "empty_media = \<lparr>mt_examples = None, mt_schema = None\<rparr>"

text \<open>Lines 942-948.\<close>

definition attach_request :: "(json \<Rightarrow> json) \<Rightarrow> operation \<Rightarrow> json \<Rightarrow> json obj \<Rightarrow> error + operation" where
  "attach_request toOpenApiSchema methodObject jsonSchema published =
     (let rb = (case requestBody methodObject of
                  None \<Rightarrow> \<lparr>rb_content = [(''application/json'', empty_media)]\<rparr>
                | Some rb0 \<Rightarrow> rb0)
      in (case obj_get (rb_content rb) ''application/json'' of
            None \<Rightarrow> Inl TypeError
          | Some mt \<Rightarrow>
              Inr (methodObject\<lparr>requestBody := Some (rb\<lparr>rb_content :=
                     obj_set (rb_content rb) ''application/json''
                       (mt\<lparr>mt_schema := Some (toOpenApiSchema jsonSchema),
                           mt_examples := Some published\<rparr>)\<rparr>)\<rparr>)))"

text \<open>Lines 977-985.\<close>

definition attach_response ::
  "(json \<Rightarrow> json) \<Rightarrow> operation \<Rightarrow> string \<Rightarrow> json \<Rightarrow> json obj \<Rightarrow> error + operation" where
  "attach_response toOpenApiSchema methodObject statusCode jsonSchema published =
     (let r = (case obj_get (responses methodObject) statusCode of
                 None \<Rightarrow> \<lparr>r_description = None, r_content = Some [(''application/json'', empty_media)]\<rparr>
               | Some r0 \<Rightarrow> r0)
      in (case r_content r of
            None \<Rightarrow> Inl TypeError
          | Some c \<Rightarrow>
              (case obj_get c ''application/json'' of
                 None \<Rightarrow> Inl TypeError
               | Some mt \<Rightarrow>
                   Inr (methodObject\<lparr>responses := obj_set (responses methodObject) statusCode
                          (r\<lparr>r_content := Some (obj_set c ''application/json''
                                (mt\<lparr>mt_schema := Some (toOpenApiSchema jsonSchema),
                                    mt_examples := Some published\<rparr>))\<rparr>)\<rparr>))))"

text \<open>
  The request slot, lines 917-949. When the method is named \<^verbatim>\<open>parameters\<close> the entry is the
  array: the assignments add properties that its serialization does not show.
\<close>

definition gen_request ::
  "(string \<Rightarrow> string list \<Rightarrow> json option) \<Rightarrow> (json \<Rightarrow> json) \<Rightarrow> string \<Rightarrow> json obj \<Rightarrow> pathEntry \<Rightarrow>
   error + pathEntry" where
  "gen_request quicktypeJSON toOpenApiSchema typeName request methodObject =
     (if length request = 0 then Inr methodObject
      else (case slot_examples quicktypeJSON typeName request of
              Inl e \<Rightarrow> Inl e
            | Inr (jsonSchema, published) \<Rightarrow>
                (case methodObject of
                   Params ps \<Rightarrow> Inr (Params ps)
                 | Op specMethod \<Rightarrow>
                     (case attach_request toOpenApiSchema specMethod jsonSchema published of
                        Inl e \<Rightarrow> Inl e
                      | Inr specMethod' \<Rightarrow> Inr (Op specMethod')))))"

text \<open>The loop over the status codes, lines 951-987.\<close>

fun gen_responses ::
  "(string \<Rightarrow> string list \<Rightarrow> json option) \<Rightarrow> (json \<Rightarrow> json) \<Rightarrow> string \<Rightarrow> (json obj) obj \<Rightarrow> pathEntry \<Rightarrow>
   error + pathEntry" where
  "gen_responses quicktypeJSON toOpenApiSchema typeName [] methodObject = Inr methodObject"
| "gen_responses quicktypeJSON toOpenApiSchema typeName ((statusCode, examples) # rest) methodObject =
     (if length examples = 0 then gen_responses quicktypeJSON toOpenApiSchema typeName rest methodObject
      else (case slot_examples quicktypeJSON typeName examples of
              Inl e \<Rightarrow> Inl e
            | Inr (jsonSchema, published) \<Rightarrow>
                (case methodObject of
                   Params ps \<Rightarrow> Inl TypeError
                 | Op specMethod \<Rightarrow>
                     (case attach_response toOpenApiSchema specMethod statusCode jsonSchema published of
                        Inl e \<Rightarrow> Inl e
                      | Inr specMethod' \<Rightarrow>
                          gen_responses quicktypeJSON toOpenApiSchema typeName rest (Op specMethod')))))"

text \<open>The operation made for a method the prior specification does not have, lines 897-913.\<close>

definition skeleton_operation :: "string \<Rightarrow> string \<Rightarrow> operation" where
  "skeleton_operation method path =
     \<lparr>operationId = operation_id method path, summary = operation_id method path,
      description = JStr [], parameters = [], responses = [], tags = [''UNKNOWN''],
      op_meta = Some \<lparr>originalPath = ''https://app.crunch.io/api'' @ path, element = None\<rparr>,
      requestBody = None\<rparr>"

text \<open>One method of a path, lines 894-988, on the path item.\<close>

definition gen_method ::
  "(string \<Rightarrow> string list \<Rightarrow> json option) \<Rightarrow> (json \<Rightarrow> json) \<Rightarrow> string \<Rightarrow> string \<Rightarrow> curatedOperation \<Rightarrow>
   pathItem \<Rightarrow> error + pathItem" where
  "gen_method quicktypeJSON toOpenApiSchema path method curated pathItem =
     (let pathItem1 = (case obj_get pathItem method of
                         None \<Rightarrow> obj_set pathItem method (Op (skeleton_operation method path))
                       | Some _ \<Rightarrow> pathItem);
          typeName = path @ ''-'' @ method @ ''-request''
      in (case obj_get pathItem1 method of
            None \<Rightarrow> Inl TypeError
          | Some methodObject \<Rightarrow>
              (case gen_request quicktypeJSON toOpenApiSchema typeName (c_request curated) methodObject of
                 Inl e \<Rightarrow> Inl e
               | Inr methodObject1 \<Rightarrow>
                   (case gen_responses quicktypeJSON toOpenApiSchema typeName (c_response curated) methodObject1 of
                      Inl e \<Rightarrow> Inl e
                    | Inr methodObject2 \<Rightarrow> Inr (obj_set pathItem1 method methodObject2)))))"

fun gen_methods ::
  "(string \<Rightarrow> string list \<Rightarrow> json option) \<Rightarrow> (json \<Rightarrow> json) \<Rightarrow> string \<Rightarrow> curatedOperation obj \<Rightarrow>
   pathItem \<Rightarrow> error + pathItem" where
  "gen_methods quicktypeJSON toOpenApiSchema path [] pathItem = Inr pathItem"
| "gen_methods quicktypeJSON toOpenApiSchema path ((method, curated) # rest) pathItem =
     (case gen_method quicktypeJSON toOpenApiSchema path method curated pathItem of
        Inl e \<Rightarrow> Inl e
      | Inr pathItem' \<Rightarrow> gen_methods quicktypeJSON toOpenApiSchema path rest pathItem')"

text \<open>
  The loop over the paths of the curated file, lines 885-989: the path item starts as the
  prior specification's, or empty, and \<open>newPaths\<close> is \<^verbatim>\<open>newSpec.paths\<close>.
\<close>

fun gen_paths ::
  "(string \<Rightarrow> string list \<Rightarrow> json option) \<Rightarrow> (json \<Rightarrow> json) \<Rightarrow> openApiSpec \<Rightarrow> exampleFile \<Rightarrow>
   pathItem obj \<Rightarrow> error + pathItem obj" where
  "gen_paths quicktypeJSON toOpenApiSchema oldSpec [] newPaths = Inr newPaths"
| "gen_paths quicktypeJSON toOpenApiSchema oldSpec ((path, methods) # rest) newPaths =
     (case gen_methods quicktypeJSON toOpenApiSchema path methods
             (case obj_get (paths oldSpec) path of None \<Rightarrow> [] | Some pathItem \<Rightarrow> pathItem) of
        Inl e \<Rightarrow> Inl e
      | Inr pathItem' \<Rightarrow>
          gen_paths quicktypeJSON toOpenApiSchema oldSpec rest (obj_set newPaths path pathItem'))"

definition generateSchema ::
  "(string \<Rightarrow> string list \<Rightarrow> json option) \<Rightarrow> (json \<Rightarrow> json) \<Rightarrow> exampleFile \<Rightarrow> openApiSpec \<Rightarrow>
   error + openApiSpec" where
  "generateSchema quicktypeJSON toOpenApiSchema masterExamples oldSpec =
     (case gen_paths quicktypeJSON toOpenApiSchema oldSpec masterExamples [] of
        Inl e \<Rightarrow> Inl e
      | Inr newPaths \<Rightarrow>
          Inr \<lparr>openapi = openapi oldSpec, info = info oldSpec, servers = servers oldSpec,
               paths = newPaths\<rparr>)"

section \<open>Sample inputs\<close>

text \<open>
  An operation as \<^verbatim>\<open>addMethod\<close> and \<^verbatim>\<open>addResponse\<close> leave it after a first
  \<^verbatim>\<open>GET\<close> answered with status 200, and three captured bodies.
\<close>

definition sample_operation :: operation where
  "sample_operation =
     addResponse 200 ''get'' (fresh_operation ''get-items'' ''List items'' ''Items'' ''https://localhost/items/'')"

definition body_a1 :: body where
  "body_a1 = \<lparr>b_text = Some ''{\"a\":1}'', b_parsed = Some (JObj [(''a'', JNum 1)])\<rparr>"

definition body_a2 :: body where
  "body_a2 = \<lparr>b_text = Some ''{\"a\":2}'', b_parsed = Some (JObj [(''a'', JNum 2)])\<rparr>"

definition body_ab :: body where
  "body_ab = \<lparr>b_text = Some ''{\"a\":1,\"b\":2}'',
              b_parsed = Some (JObj [(''a'', JNum 1), (''b'', JNum 2)])\<rparr>"

text \<open>A binary upload: \<^verbatim>\<open>postData\<close> without \<^verbatim>\<open>text\<close>.\<close>

definition body_binary :: body where
  "body_binary = \<lparr>b_text = None, b_parsed = None\<rparr>"

text \<open>
  A configuration with three literal rules, a \<^verbatim>\<open>POST\<close> with a JSON body that the server
  answered with status 400, and two \<^verbatim>\<open>GET\<close>s answered with status 200 and a body.
\<close>

definition sample_config :: config where
  "sample_config =
     \<lparr>apiBasePath = ''localhost'',
      pathReplace = [(''https://localhost'', []), (''/accounts/42/'', ''/accounts/{account_id}/''),
                     (''/accounts/43/'', ''/accounts/{account_id}/'')],
      cfg_replace = [], cfg_tags = [[''billing'', ''Billing''], [''account'']]\<rparr>"

definition failed_post :: entry where
  "failed_post =
     \<lparr>e_request = \<lparr>req_method = ''POST'', req_url = ''https://localhost/accounts/43/'',
                    req_queryString = [], req_bodySize = 7, req_postData = Some body_a1\<rparr>,
      e_response = \<lparr>res_status = 400, res_bodySize = 0,
                     res_content = \<lparr>b_text = None, b_parsed = None\<rparr>\<rparr>\<rparr>"

definition get_42 :: entry where
  "get_42 =
     \<lparr>e_request = \<lparr>req_method = ''GET'', req_url = ''https://localhost/accounts/42/'',
                    req_queryString = [], req_bodySize = 0, req_postData = None\<rparr>,
      e_response = \<lparr>res_status = 200, res_bodySize = 20,
                     res_content = \<lparr>b_text = Some ''{\"id\":42,\"name\":\"a\"}'',
                                    b_parsed = Some (JObj [(''id'', JNum 42), (''name'', JStr ''a'')])\<rparr>\<rparr>\<rparr>"

definition get_43 :: entry where
  "get_43 =
     \<lparr>e_request = \<lparr>req_method = ''GET'', req_url = ''https://localhost/accounts/43/'',
                    req_queryString = [], req_bodySize = 0, req_postData = None\<rparr>,
      e_response = \<lparr>res_status = 200, res_bodySize = 33,
                     res_content = \<lparr>b_text = Some ''{\"id\":43,\"name\":\"b\",\"extra\":true}'',
                                    b_parsed = Some (JObj [(''id'', JNum 43), (''name'', JStr ''b''),
                                                           (''extra'', JBool True)])\<rparr>\<rparr>\<rparr>"

text \<open>The state of the loop after \<open>failed_post\<close>, from the empty specification.\<close>

definition failed_post_state :: genState where
  "failed_post_state =
     \<lparr>g_paths =
        [(''/accounts/{account_id}/'',
          [(''parameters'',
            Params [\<lparr>p_description = ''Unique ID of the account you are working with'',
                     p_in = ''path'', p_name = ''account_id'', p_required = Some True,
                     p_schema = JObj [(''type'', JStr ''string'')]\<rparr>]),
           (''post'',
            Op \<lparr>operationId = ''post-accounts-account_id'', summary = ''Create account'',
                description = JStr [], parameters = [],
                responses = [(''400'', \<lparr>r_description = Some ''Bad request'', r_content = None\<rparr>)],
                tags = [''Account''],
                op_meta = Some \<lparr>originalPath = ''https://localhost/accounts/43/'',
                                 element = Some (JStr [])\<rparr>,
                requestBody = None\<rparr>)])],
      g_methodList =
        [''Account'' @ [CHR 0x09] @ ''/accounts/{account_id}/'' @ [CHR 0x09] @ ''post'' @
         [CHR 0x09] @ ''Create account'']\<rparr>"

text \<open>
  A prior specification with one path and one operation, and two curated files: one that
  mentions another path only, one that mentions the same path with another method.
\<close>

definition prior_spec :: openApiSpec where
  "prior_spec =
     \<lparr>openapi = JStr ''3.0.0'',
      info = JObj [(''title'', JStr ''API''), (''version'', JStr ''1.0.0'')],
      servers = JArr [JObj [(''url'', JStr ''/'')]],
      paths = [(''/items/'', [(''get'', Op sample_operation)])]\<rparr>"

definition curated_users :: exampleFile where
  "curated_users = [(''/users/'', [(''get'', \<lparr>c_request = [], c_response = []\<rparr>)])]"

definition curated_items_post :: exampleFile where
  "curated_items_post =
     [(''/items/'', [(''post'', \<lparr>c_request = [(''gexample-0002'', JObj [(''a'', JNum 1)])],
                                c_response = []\<rparr>)])]"

text \<open>An inference that answers every sample set with the same schema.\<close>

definition constant_inference :: "string \<Rightarrow> string list \<Rightarrow> json option" where
  "constant_inference typeName samples = Some (JObj [(''type'', JStr ''object'')])"

section \<open>Properties\<close>

subsection \<open>Objects and key names\<close>

lemma map_of_obj_update:
  "map_of (obj_update k v ob) k' = (if k' = k \<and> map_of ob k \<noteq> None then Some v else map_of ob k')"
  by (induction ob) auto

lemma map_of_insert_index:
  "map_of ob k = None \<Longrightarrow> map_of (insert_index n k v ob) k' = (if k' = k then Some v else map_of ob k')"
  by (induction ob) (auto split: option.splits if_splits)

lemma obj_get_obj_set: "obj_get (obj_set ob k v) k' = (if k' = k then Some v else obj_get ob k')"
  by (auto simp: obj_get_def obj_set_def map_of_obj_update map_of_insert_index map_add_def split: option.splits)

lemma length_obj_update: "length (obj_update k v ob) = length ob"
  by (induction ob) auto

lemma length_insert_index: "length (insert_index n k v ob) = Suc (length ob)"
  by (induction ob) (auto split: option.splits)

lemma length_obj_set:
  "length (obj_set ob k v) = (if obj_get ob k = None then Suc (length ob) else length ob)"
  by (auto simp: obj_get_def obj_set_def length_obj_update length_insert_index split: option.splits)

lemma obj_update_same: "map_of ob k = Some v \<Longrightarrow> obj_update k v ob = ob"
  by (induction ob) (auto split: if_splits)

lemma obj_set_same: "obj_get ob k = Some v \<Longrightarrow> obj_set ob k v = ob"
  by (simp add: obj_get_def obj_set_def obj_update_same)

lemma array_index_example: "array_index (example_name m w) = None"
  by (simp add: example_name_def array_index_def is_digit_def)

lemma obj_set_fresh:
  "obj_get ob k = None \<Longrightarrow> array_index k = None \<Longrightarrow> obj_set ob k v = ob @ [(k, v)]"
  by (simp add: obj_get_def obj_set_def)

lemma digit_value_all: "list_all (\<lambda>d. (of_char (digit d) :: nat) - 48 = d) [0..<10]"
  by code_simp

lemma digit_value: "d < 10 \<Longrightarrow> of_char (digit d) - 48 = d"
  using digit_value_all by (simp add: list_all_iff)

lemma decimal_value_snoc: "decimal_value (s @ [c]) = 10 * decimal_value s + (of_char c - 48)"
  by (simp add: decimal_value_def)

lemma decimal_value_toString: "decimal_value (toString_nat n) = n"
proof (induction n rule: toString_nat.induct)
  case (1 n)
  show ?case
  proof (cases "n < 10")
    case True
    then show ?thesis
      by (subst toString_nat.simps) (simp add: decimal_value_def digit_value)
  next
    case False
    with 1 show ?thesis
      by (subst toString_nat.simps) (simp add: decimal_value_snoc digit_value)
  qed
qed

lemma decimal_value_zeros: "decimal_value (replicate k CHR ''0'' @ s) = decimal_value s"
  by (induction k) (simp_all add: decimal_value_def)

lemma decimal_value_pad: "decimal_value (pad m w) = m"
  by (simp add: pad_def Let_def decimal_value_zeros decimal_value_toString)

lemma pad_inject: "pad m w = pad n w \<Longrightarrow> m = n"
  by (metis decimal_value_pad)

lemma example_name_inject: "example_name m w = example_name n w \<Longrightarrow> m = n"
  by (simp add: example_name_def pad_inject)

subsection \<open>Response classifier\<close>

lemma array_index_202: "array_index ''202'' = Some 202"
  by (simp add: array_index_def is_digit_def digit_val_def)

text \<open>
  C4 (the code at the input where it leaves the claim): for status 204 and method
  \<^verbatim>\<open>post\<close> the classifier stores the description "Item created" under the key
  \<^verbatim>\<open>202\<close>, and the key \<^verbatim>\<open>204\<close>, the decimal string of the status, stays absent.
\<close>

theorem addResponse_204_post:
  "responses (addResponse 204 ''post'' (fresh_operation ''post-items'' ''Create item'' ''Items'' ''https://localhost/items/''))
     = [(''202'', \<lparr>r_description = Some ''Item created'', r_content = None\<rparr>)]
   \<and> obj_get (responses (addResponse 204 ''post'' (fresh_operation ''post-items'' ''Create item'' ''Items'' ''https://localhost/items/''))) ''204'' = None"
  by (simp add: addResponse_def set_response_def fresh_operation_def obj_set_def obj_get_def array_index_202)

lemma toString_int_statuses:
  "toString_int 200 = ''200''" "toString_int 201 = ''201''" "toString_int 202 = ''202''"
  "toString_int 204 = ''204''" "toString_int 400 = ''400''" "toString_int 401 = ''401''"
  "toString_int 404 = ''404''" "toString_int 405 = ''405''"
  by code_simp+

lemma addResponse_401: "addResponse 401 method specPath = set_response specPath ''401'' ''Unauthorized''"
  by (simp add: addResponse_def)

lemma addResponse_400_delete:
  "addResponse 400 ''delete'' specPath = set_response specPath ''400'' ''Deletion failed - item in use''"
  by (simp add: addResponse_def)

lemma addResponse_other:
  "status \<notin> {200, 201, 202, 204, 400, 401, 404, 405} \<Longrightarrow> addResponse status method specPath = specPath"
  by (simp add: addResponse_def)

lemma addResponse_200:
  "addResponse 200 method specPath = specPath
     \<or> (\<exists>d. addResponse 200 method specPath = set_response specPath ''200'' d)"
  by (simp add: addResponse_def) blast?

lemma addResponse_201:
  "addResponse 201 method specPath = specPath
     \<or> (\<exists>d. addResponse 201 method specPath = set_response specPath ''201'' d)"
  by (simp add: addResponse_def) blast?

lemma addResponse_202:
  "addResponse 202 method specPath = specPath
     \<or> (\<exists>d. addResponse 202 method specPath = set_response specPath ''202'' d)"
  by (simp add: addResponse_def) blast?

lemma addResponse_204:
  "method \<noteq> ''post'' \<Longrightarrow> addResponse 204 method specPath = specPath
     \<or> (\<exists>d. addResponse 204 method specPath = set_response specPath ''204'' d)"
  by (simp add: addResponse_def) blast?

lemma addResponse_400:
  "\<exists>d. addResponse 400 method specPath = set_response specPath ''400'' d"
  by (simp add: addResponse_def) blast?

lemma addResponse_404:
  "addResponse 404 method specPath = set_response specPath ''404'' ''Item not found''"
  by (simp add: addResponse_def)

lemma addResponse_405:
  "addResponse 405 method specPath = set_response specPath ''405'' ''Not allowed''"
  by (simp add: addResponse_def)

lemma addResponse_own_key_cases:
  assumes "status \<noteq> 204 \<or> method \<noteq> ''post''"
  shows "addResponse status method specPath = specPath
      \<or> (\<exists>d. addResponse status method specPath = set_response specPath (toString_int status) d)"
proof -
  have "status = 200 \<or> status = 201 \<or> status = 202 \<or> status = 204 \<or> status = 400
      \<or> status = 401 \<or> status = 404 \<or> status = 405
      \<or> status \<notin> {200, 201, 202, 204, 400, 401, 404, 405}"
    by blast
  then show ?thesis
  proof (elim disjE)
    assume "status = 200"
    then show ?thesis using addResponse_200 [of "method" specPath] by (simp add: toString_int_statuses)
  next
    assume "status = 201"
    then show ?thesis using addResponse_201 [of "method" specPath] by (simp add: toString_int_statuses)
  next
    assume "status = 202"
    then show ?thesis using addResponse_202 [of "method" specPath] by (simp add: toString_int_statuses)
  next
    assume "status = 204"
    with assms have "method \<noteq> ''post''" by simp
    from addResponse_204 [OF this, of specPath] \<open>status = 204\<close> show ?thesis
      by (simp add: toString_int_statuses)
  next
    assume "status = 400"
    then show ?thesis using addResponse_400 [of "method" specPath] by (simp add: toString_int_statuses)
  next
    assume "status = 401"
    then show ?thesis by (simp add: addResponse_401 toString_int_statuses) blast
  next
    assume "status = 404"
    then show ?thesis by (simp add: addResponse_404 toString_int_statuses) blast
  next
    assume "status = 405"
    then show ?thesis by (simp add: addResponse_405 toString_int_statuses) blast
  next
    assume "status \<notin> {200, 201, 202, 204, 400, 401, 404, 405}"
    then show ?thesis by (simp add: addResponse_other)
  qed
qed

text \<open>
  Every cell of the table but the one of status 204 and method \<^verbatim>\<open>post\<close> leaves the
  operation as it is or stores a description under the decimal string of its own status;
  status 401 gives "Unauthorized" for every method, and status 400 with \<^verbatim>\<open>delete\<close> gives
  "Deletion failed - item in use".
\<close>

theorem addResponse_own_key:
  "(status \<noteq> 204 \<or> method \<noteq> ''post'' \<longrightarrow>
      addResponse status method specPath = specPath
      \<or> (\<exists>d. addResponse status method specPath = set_response specPath (toString_int status) d))
   \<and> addResponse 401 method specPath = set_response specPath ''401'' ''Unauthorized''
   \<and> addResponse 400 ''delete'' specPath = set_response specPath ''400'' ''Deletion failed - item in use''"
  using addResponse_own_key_cases [of status "method" specPath] addResponse_401 [of "method" specPath]
    addResponse_400_delete [of specPath]
  by blast

theorem addResponse_own_key_witness:
  "((200::int) \<noteq> 204 \<or> ''post'' \<noteq> ''post'')
   \<and> (addResponse 200 ''post'' sample_operation = sample_operation
      \<or> (\<exists>d. addResponse 200 ''post'' sample_operation = set_response sample_operation (toString_int 200) d))"
proof -
  have h: "(200::int) \<noteq> 204 \<or> ''post'' \<noteq> ''post''" by simp
  show ?thesis
    using h addResponse_own_key [of 200 "''post''" sample_operation] by blast
qed

subsection \<open>Example curation validator\<close>

lemma example_name_fresh:
  assumes "length ys = i"
  shows "obj_get (zip (map (\<lambda>j. example_name (j + 1) w) [0..<i]) ys) (example_name (i + 1) w) = None"
proof -
  have "example_name (i + 1) w \<notin> set (map (\<lambda>j. example_name (j + 1) w) [0..<i])"
  proof
    assume "example_name (i + 1) w \<in> set (map (\<lambda>j. example_name (j + 1) w) [0..<i])"
    then obtain j where "j < i" and "example_name (i + 1) w = example_name (j + 1) w"
      by auto
    then have "i + 1 = j + 1" using example_name_inject by blast
    with \<open>j < i\<close> show False by simp
  qed
  with assms show ?thesis
    by (simp add: obj_get_def map_of_zip_is_None)
qed

lemma renumber_fst:
  "length ys = i \<Longrightarrow>
   fst (renumber i w xs (zip (map (\<lambda>j. example_name (j + 1) w) [0..<i]) ys, f)) =
   zip (map (\<lambda>j. example_name (j + 1) w) [0..<i + length xs]) (ys @ xs)"
proof (induction xs arbitrary: i ys f)
  case Nil
  then show ?case by simp
next
  case (Cons x xs)
  let ?nm = "\<lambda>j. example_name (j + 1) w"
  have "obj_set (zip (map ?nm [0..<i]) ys) (example_name (i + 1) w) x =
        zip (map ?nm [0..<i]) ys @ [(example_name (i + 1) w, x)]"
    by (rule obj_set_fresh [OF example_name_fresh [OF Cons.prems] array_index_example])
  also have "\<dots> = zip (map ?nm [0..<Suc i]) (ys @ [x])"
    using Cons.prems by simp
  finally have step: "obj_set (zip (map ?nm [0..<i]) ys) (example_name (i + 1) w) x =
        zip (map ?nm [0..<Suc i]) (ys @ [x])" .
  have len: "length (ys @ [x]) = Suc i" using Cons.prems by simp
  have "fst (renumber i w (x # xs) (zip (map ?nm [0..<i]) ys, f)) =
        fst (renumber (Suc i) w xs (zip (map ?nm [0..<Suc i]) (ys @ [x]),
              (case f of None \<Rightarrow> Some x | Some g \<Rightarrow> (if truthy g then Some g else Some x))))"
    by (simp only: renumber.simps step)
  also have "\<dots> = zip (map ?nm [0..<Suc i + length xs]) ((ys @ [x]) @ xs)"
    by (rule Cons.IH [OF len])
  finally show ?case by simp
qed

text \<open>
  C7: the validator fails, with \<^verbatim>\<open>exit(1)\<close>, exactly when the pool has at least one
  example and no example name contains the marker \<^verbatim>\<open>gexample\<close>; it fails in no other
  way; and the pool with no example passes with an empty published set.
\<close>

theorem validateExampleList_gate:
  "(validateExampleList pool = Inl (Exit 1)) =
     (pool \<noteq> [] \<and> \<not> list_ex (\<lambda>e. str_includes (fst e) ''gexample'') pool)
   \<and> isl (validateExampleList pool) = (validateExampleList pool = Inl (Exit 1))
   \<and> validateExampleList [] = Inr \<lparr>allExamples = [], publishExamples = [], firstExample = None\<rparr>"
  by (auto simp: validateExampleList_def Let_def filter_empty_conv list_ex_iff)

text \<open>
  C6, as the code has it: when the validator passes, the published examples are the flagged
  values in their order, unchanged, and the \<open>k\<close>-th of them (from 1) is keyed
  \<^verbatim>\<open>example-\<close> followed by \<open>k\<close> in decimal, padded with zeros to the width
  \<open>count div 10 + 1\<close>, where \<open>count\<close> is the number of flagged examples.
\<close>

theorem validateExampleList_renumbering:
  assumes "validateExampleList pool = Inr r"
  shows "publishExamples r =
     zip (map (\<lambda>i. example_name (i + 1) (length (filter (\<lambda>e. str_includes (fst e) ''gexample'') pool) div 10 + 1))
              [0..<length (filter (\<lambda>e. str_includes (fst e) ''gexample'') pool)])
         (map snd (filter (\<lambda>e. str_includes (fst e) ''gexample'') pool))"
proof -
  let ?fl = "map snd (filter (\<lambda>e. str_includes (fst e) ''gexample'') pool)"
  have "publishExamples r = fst (renumber 0 (length ?fl div 10 + 1) ?fl ([], None))"
    using assms by (auto simp: validateExampleList_def Let_def split: if_splits)
  also have "\<dots> = zip (map (\<lambda>j. example_name (j + 1) (length ?fl div 10 + 1)) [0..<0 + length ?fl]) ([] @ ?fl)"
    using renumber_fst [of "[]" 0 "length ?fl div 10 + 1" ?fl None] by simp
  finally show ?thesis by simp
qed

text \<open>C6, witness: a pool of three examples, two of them flagged.\<close>

theorem validateExampleList_renumbering_witness:
  "validateExampleList [(''gexample-0003'', JStr ''a''), (''example-0004'', JStr ''b''), (''gexample-0007'', JStr ''c'')]
     = Inr \<lparr>allExamples = [''\"a\"'', ''\"b\"'', ''\"c\"''],
            publishExamples = [(''example-1'', JStr ''a''), (''example-2'', JStr ''c'')],
            firstExample = Some (JStr ''a'')\<rparr>
   \<and> [(''example-1'', JStr ''a''), (''example-2'', JStr ''c'')]
     = zip (map (\<lambda>i. example_name (i + 1) (length (filter (\<lambda>e. str_includes (fst e) ''gexample'')
                  [(''gexample-0003'', JStr ''a''), (''example-0004'', JStr ''b''), (''gexample-0007'', JStr ''c'')]) div 10 + 1))
              [0..<length (filter (\<lambda>e. str_includes (fst e) ''gexample'')
                  [(''gexample-0003'', JStr ''a''), (''example-0004'', JStr ''b''), (''gexample-0007'', JStr ''c'')])])
         (map snd (filter (\<lambda>e. str_includes (fst e) ''gexample'')
                  [(''gexample-0003'', JStr ''a''), (''example-0004'', JStr ''b''), (''gexample-0007'', JStr ''c'')]))"
proof -
  have h: "validateExampleList [(''gexample-0003'', JStr ''a''), (''example-0004'', JStr ''b''), (''gexample-0007'', JStr ''c'')]
     = Inr \<lparr>allExamples = [''\"a\"'', ''\"b\"'', ''\"c\"''],
            publishExamples = [(''example-1'', JStr ''a''), (''example-2'', JStr ''c'')],
            firstExample = Some (JStr ''a'')\<rparr>"
    by code_simp
  show ?thesis
    using h validateExampleList_renumbering [OF h] by simp
qed

text \<open>
  C6, counterexample to the key \<^verbatim>\<open>example-0001\<close>: one flagged example gives the width
  \<open>1 div 10 + 1 = 1\<close>, so its key is \<^verbatim>\<open>example-1\<close>.
\<close>

theorem validateExampleList_key_counterexample:
  "(case validateExampleList [(''gexample-0002'', JObj [(''a'', JNum 1)])] of
      Inl e \<Rightarrow> False
    | Inr r \<Rightarrow> map fst (publishExamples r) = [''example-1'']
             \<and> obj_get (publishExamples r) ''example-0001'' = None)"
  by code_simp


subsection \<open>Example merge engine\<close>

text \<open>
  C2, as the code has it: the response body \<^verbatim>\<open>{"a":1}\<close> has one top-level key, so line 621
  does not fold it; folded twice, it leaves the operation as it was, with no pool under the
  status. A body with two keys, \<^verbatim>\<open>{"a":1,"b":2}\<close>, folded twice leaves the accumulator
  \<^verbatim>\<open>example-0001\<close> and one individual example, \<^verbatim>\<open>example-0002\<close>, both with that value.
\<close>

theorem response_fold_twice:
  "mergeResponseExample
       (mergeResponseExample sample_operation ''200'' body_a1 ''get'' ''/items/'')
       ''200'' body_a1 ''get'' ''/items/''
     = sample_operation
   \<and> response_pool sample_operation ''200'' = None
   \<and> response_pool
     (mergeResponseExample
       (mergeResponseExample sample_operation ''200'' body_ab ''get'' ''/items/'')
       ''200'' body_ab ''get'' ''/items/'')
     ''200''
     = Some [(''example-0001'', JObj [(''a'', JNum 1), (''b'', JNum 2)]),
             (''example-0002'', JObj [(''a'', JNum 1), (''b'', JNum 2)])]"
  by code_simp

text \<open>
  C2, counterexample: after the two folds of \<^verbatim>\<open>{"a":1}\<close> there is no pool, hence no
  example \<^verbatim>\<open>example-0001\<close>.
\<close>

theorem response_single_key_counterexample:
  "response_pool
     (mergeResponseExample
       (mergeResponseExample sample_operation ''200'' body_a1 ''get'' ''/items/'')
       ''200'' body_a1 ''get'' ''/items/'')
     ''200'' = None"
  by code_simp

text \<open>
  C8: a value whose serialization equals that of an example stored in the pool (for a
  response, the value left after the \<^verbatim>\<open>traceback\<close> field is removed) leaves the whole
  operation, and so the pool, its accumulator and every stored example, unchanged.
\<close>

theorem duplicate_fold_no_mutation:
  "(request_pool specMethod = Some examples \<and> b_parsed postData = Some data \<and> is_duplicate examples data
      \<longrightarrow> mergeRequestExample specMethod postData = specMethod)
   \<and> (response_pool specMethod statusString = Some examples \<and> b_parsed content = Some parsed
        \<and> is_duplicate examples (delete_prop parsed ''traceback'')
      \<longrightarrow> mergeResponseExample specMethod statusString content method filteredUrl = specMethod)"
proof (intro conjI impI)
  assume a: "request_pool specMethod = Some examples \<and> b_parsed postData = Some data \<and> is_duplicate examples data"
  then obtain rb mt where rb: "requestBody specMethod = Some rb"
    and mt: "obj_get (rb_content rb) ''application/json'' = Some mt"
    and ex: "mt_examples mt = Some examples"
    by (auto simp: request_pool_def split: option.splits)
  from rb have same: "specMethod\<lparr>requestBody := Some rb\<rparr> = specMethod" by simp
  show "mergeRequestExample specMethod postData = specMethod"
    using a rb mt ex same by (simp add: mergeRequestExample_def)
next
  assume a: "response_pool specMethod statusString = Some examples \<and> b_parsed content = Some parsed
        \<and> is_duplicate examples (delete_prop parsed ''traceback'')"
  then obtain r c mt where r: "obj_get (responses specMethod) statusString = Some r"
    and c: "r_content r = Some c"
    and mt: "obj_get c ''application/json'' = Some mt"
    and ex: "mt_examples mt = Some examples"
    by (auto simp: response_pool_def split: option.splits)
  from c have "r\<lparr>r_content := Some c\<rparr> = r" by simp
  with r have same: "specMethod\<lparr>responses := obj_set (responses specMethod) statusString (r\<lparr>r_content := Some c\<rparr>)\<rparr> = specMethod"
    by (simp add: obj_set_same)
  show "mergeResponseExample specMethod statusString content method filteredUrl = specMethod"
    using a r c mt ex same by (cases parsed) (simp_all add: mergeResponseExample_def Let_def)
qed

text \<open>C8, witness: the second fold of a request body and of a response body.\<close>

theorem duplicate_fold_no_mutation_witness:
  "(request_pool (mergeRequestExample sample_operation body_a1)
        = Some [(''example-0001'', JObj [(''a'', JNum 1)]), (''example-0002'', JObj [(''a'', JNum 1)])]
    \<and> b_parsed body_a1 = Some (JObj [(''a'', JNum 1)])
    \<and> is_duplicate [(''example-0001'', JObj [(''a'', JNum 1)]), (''example-0002'', JObj [(''a'', JNum 1)])]
          (JObj [(''a'', JNum 1)])
    \<and> mergeRequestExample (mergeRequestExample sample_operation body_a1) body_a1
        = mergeRequestExample sample_operation body_a1)
   \<and> (response_pool (mergeResponseExample sample_operation ''200'' body_ab ''get'' ''/items/'') ''200''
        = Some [(''example-0001'', JObj [(''a'', JNum 1), (''b'', JNum 2)]),
                (''example-0002'', JObj [(''a'', JNum 1), (''b'', JNum 2)])]
    \<and> b_parsed body_ab = Some (JObj [(''a'', JNum 1), (''b'', JNum 2)])
    \<and> is_duplicate [(''example-0001'', JObj [(''a'', JNum 1), (''b'', JNum 2)]),
                     (''example-0002'', JObj [(''a'', JNum 1), (''b'', JNum 2)])]
          (delete_prop (JObj [(''a'', JNum 1), (''b'', JNum 2)]) ''traceback'')
    \<and> mergeResponseExample (mergeResponseExample sample_operation ''200'' body_ab ''get'' ''/items/'')
          ''200'' body_ab ''get'' ''/items/''
        = mergeResponseExample sample_operation ''200'' body_ab ''get'' ''/items/'')"
proof -
  have h1: "request_pool (mergeRequestExample sample_operation body_a1)
        = Some [(''example-0001'', JObj [(''a'', JNum 1)]), (''example-0002'', JObj [(''a'', JNum 1)])]"
    by code_simp
  have h2: "b_parsed body_a1 = Some (JObj [(''a'', JNum 1)])"
    by code_simp
  have h3: "is_duplicate [(''example-0001'', JObj [(''a'', JNum 1)]), (''example-0002'', JObj [(''a'', JNum 1)])]
          (JObj [(''a'', JNum 1)])"
    by code_simp
  have h4: "response_pool (mergeResponseExample sample_operation ''200'' body_ab ''get'' ''/items/'') ''200''
        = Some [(''example-0001'', JObj [(''a'', JNum 1), (''b'', JNum 2)]),
                (''example-0002'', JObj [(''a'', JNum 1), (''b'', JNum 2)])]"
    by code_simp
  have h5: "b_parsed body_ab = Some (JObj [(''a'', JNum 1), (''b'', JNum 2)])"
    by code_simp
  have h6: "is_duplicate [(''example-0001'', JObj [(''a'', JNum 1), (''b'', JNum 2)]),
                     (''example-0002'', JObj [(''a'', JNum 1), (''b'', JNum 2)])]
          (delete_prop (JObj [(''a'', JNum 1), (''b'', JNum 2)]) ''traceback'')"
    by code_simp
  show ?thesis
    using h1 h2 h3 h4 h5 h6
      duplicate_fold_no_mutation [of "mergeRequestExample sample_operation body_a1"
        "[(''example-0001'', JObj [(''a'', JNum 1)]), (''example-0002'', JObj [(''a'', JNum 1)])]"
        body_a1 "JObj [(''a'', JNum 1)]"]
      duplicate_fold_no_mutation [of
        "mergeResponseExample sample_operation ''200'' body_ab ''get'' ''/items/''"
        "[(''example-0001'', JObj [(''a'', JNum 1), (''b'', JNum 2)]),
          (''example-0002'', JObj [(''a'', JNum 1), (''b'', JNum 2)])]"
        _ _ "''200''" body_ab "JObj [(''a'', JNum 1), (''b'', JNum 2)]" "''get''" "''/items/''"]
    by blast
qed

text \<open>
  C10: once the request slot of an operation holds the binary shape (a request without text
  met an operation without \<^verbatim>\<open>requestBody\<close>), every later call of
  \<^verbatim>\<open>mergeRequestExample\<close> leaves the operation unchanged: the shape stays and no pool
  of examples appears.
\<close>

theorem binary_then_json_discarded:
  "requestBody specMethod = None \<and> \<not> text_truthy (b_text binaryData) \<longrightarrow>
     requestBody (mergeRequestExample specMethod binaryData)
       = Some \<lparr>rb_content = [(''multipart/form-data'', binary_media)]\<rparr>
     \<and> request_pool (mergeRequestExample specMethod binaryData) = None
     \<and> foldl mergeRequestExample (mergeRequestExample specMethod binaryData) later
       = mergeRequestExample specMethod binaryData"
proof (intro impI)
  assume a: "requestBody specMethod = None \<and> \<not> text_truthy (b_text binaryData)"
  let ?op = "mergeRequestExample specMethod binaryData"
  have rb: "requestBody ?op = Some \<lparr>rb_content = [(''multipart/form-data'', binary_media)]\<rparr>"
    using a by (simp add: mergeRequestExample_def)
  have step: "mergeRequestExample op b = op"
    if "requestBody op = Some \<lparr>rb_content = [(''multipart/form-data'', binary_media)]\<rparr>" for op b
    using that by (simp add: mergeRequestExample_def obj_get_def split: option.splits)
  have fold: "foldl mergeRequestExample ?op later = ?op"
    using rb by (induction later) (simp_all add: step)
  show "requestBody ?op = Some \<lparr>rb_content = [(''multipart/form-data'', binary_media)]\<rparr>
     \<and> request_pool ?op = None \<and> foldl mergeRequestExample ?op later = ?op"
    using rb fold by (simp add: request_pool_def obj_get_def)
qed

text \<open>C10, witness: a binary upload followed by two JSON bodies.\<close>

theorem binary_then_json_discarded_witness:
  "(requestBody sample_operation = None \<and> \<not> text_truthy (b_text body_binary))
   \<and> requestBody (mergeRequestExample sample_operation body_binary)
       = Some \<lparr>rb_content = [(''multipart/form-data'', binary_media)]\<rparr>
   \<and> request_pool (mergeRequestExample sample_operation body_binary) = None
   \<and> foldl mergeRequestExample (mergeRequestExample sample_operation body_binary) [body_a1, body_ab]
       = mergeRequestExample sample_operation body_binary"
proof -
  have h: "requestBody sample_operation = None \<and> \<not> text_truthy (b_text body_binary)"
    by code_simp
  show ?thesis
    using h binary_then_json_discarded [of sample_operation body_binary "[body_a1, body_ab]"] by blast
qed


subsection \<open>The accumulator\<close>

lemma example_name_0001: "example_name 1 4 = ''example-0001''"
  by code_simp

lemma obj_get_singleton: "obj_get [(k, v)] k' = (if k' = k then Some v else None)"
  by (simp add: obj_get_def)

lemma obj_get_pool_shape_acc: "obj_get (pool_shape acc ind) ''example-0001'' = Some acc"
  by (simp add: pool_shape_def obj_get_def)

lemma obj_set_pool_shape_acc: "obj_set (pool_shape acc ind) ''example-0001'' acc' = pool_shape acc' ind"
  by (simp add: pool_shape_def obj_set_def)

lemma length_pool_shape: "length (pool_shape acc ind) = Suc (length ind)"
  by (simp add: pool_shape_def)

lemma pool_shape_fresh: "obj_get (pool_shape acc ind) (example_name (length ind + 2) 4) = None"
proof -
  let ?k = "example_name (length ind + 2) 4"
  have a: "?k \<noteq> ''example-0001''"
  proof
    assume "?k = ''example-0001''"
    then have "?k = example_name 1 4" by (simp only: example_name_0001)
    then have "length ind + 2 = 1" by (rule example_name_inject)
    then show False by simp
  qed
  have "?k \<notin> set (map (\<lambda>i. example_name (i + 2) 4) [0..<length ind])"
  proof
    assume "?k \<in> set (map (\<lambda>i. example_name (i + 2) 4) [0..<length ind])"
    then obtain j where "j < length ind" and "?k = example_name (j + 2) 4" by auto
    then have "length ind + 2 = j + 2" using example_name_inject by blast
    with \<open>j < length ind\<close> show False by simp
  qed
  then have "map_of (zip (map (\<lambda>i. example_name (i + 2) 4) [0..<length ind]) ind) ?k = None"
    by (simp add: map_of_zip_is_None)
  with a show ?thesis
    by (simp add: pool_shape_def obj_get_def)
qed

lemma obj_set_pool_shape_new:
  "obj_set (pool_shape acc ind) (example_name (length ind + 2) 4) v = pool_shape acc (ind @ [v])"
proof -
  have "obj_set (pool_shape acc ind) (example_name (length ind + 2) 4) v =
        pool_shape acc ind @ [(example_name (length ind + 2) 4, v)]"
    by (rule obj_set_fresh [OF pool_shape_fresh array_index_example])
  also have "\<dots> = pool_shape acc (ind @ [v])"
    by (simp add: pool_shape_def)
  finally show ?thesis .
qed

lemma fold_example_pool_shape:
  "fold_example (pool_shape acc ind) v =
     (case deepmerge acc v of None \<Rightarrow> None | Some merged \<Rightarrow> Some (pool_shape merged (ind @ [v])))"
proof (cases "deepmerge acc v")
  case None
  then show ?thesis by (simp add: fold_example_def obj_get_pool_shape_acc)
next
  case (Some merged)
  have "length ind + 2 = length (pool_shape merged ind) + 1" by (simp add: length_pool_shape)
  then have "obj_set (pool_shape merged ind) (example_name (length (pool_shape merged ind) + 1) 4) v
      = pool_shape merged (ind @ [v])"
    using obj_set_pool_shape_new [of merged ind v] by simp
  with Some show ?thesis
    by (simp add: fold_example_def obj_get_pool_shape_acc obj_set_pool_shape_acc Let_def)
qed

lemma merge_all_snoc:
  "merge_all a (xs @ [v]) = (case merge_all a xs of None \<Rightarrow> None | Some b \<Rightarrow> deepmerge b v)"
  by (induction xs arbitrary: a) (auto split: option.splits)

lemma request_pool_mergeRequestExample:
  assumes "text_truthy (b_text b)" and "b_parsed b = Some v"
  shows "request_pool (mergeRequestExample op b) =
     (case (case requestBody op of None \<Rightarrow> Some [(''example-0001'', JObj [])] | Some rb \<Rightarrow> request_pool op) of
        None \<Rightarrow> None
      | Some exs \<Rightarrow>
          (if is_duplicate exs v then Some exs
           else (case fold_example exs v of None \<Rightarrow> Some exs | Some exs' \<Rightarrow> Some exs')))"
  using assms
  by (auto simp: mergeRequestExample_def request_pool_def Let_def json_media_def
      set_request_examples_def obj_get_obj_set obj_get_singleton split: option.splits)

lemma pool_shape_empty: "pool_shape (JObj []) [] = [(''example-0001'', JObj [])]"
  by (simp add: pool_shape_def)

lemma mergeRequestExample_pool_step:
  assumes pre: "request_pool op = Some (pool_shape acc ind) \<or> requestBody op = None \<and> acc = JObj [] \<and> ind = []"
    and b: "text_truthy (b_text b)" "b_parsed b = Some v"
  shows "request_pool (mergeRequestExample op b) =
     Some (pool_shape (fst (foldExample (acc, ind) v)) (snd (foldExample (acc, ind) v)))"
proof -
  have start: "(case requestBody op of None \<Rightarrow> Some [(''example-0001'', JObj [])] | Some rb \<Rightarrow> request_pool op)
      = Some (pool_shape acc ind)"
    using pre by (auto simp: pool_shape_empty request_pool_def split: option.splits)
  show ?thesis
    by (simp add: request_pool_mergeRequestExample [OF b] start fold_example_pool_shape foldExample_def
        split: option.splits)
qed

lemma foldl_mergeRequestExample_pool:
  assumes "request_pool op = Some (pool_shape acc ind)"
    and "list_all (\<lambda>b. text_truthy (b_text b)) bodies"
    and "map b_parsed bodies = map Some vs"
  shows "request_pool (foldl mergeRequestExample op bodies) =
     Some (pool_shape (fst (foldl foldExample (acc, ind) vs)) (snd (foldl foldExample (acc, ind) vs)))"
  using assms
proof (induction bodies arbitrary: op acc ind vs)
  case Nil
  then show ?case by simp
next
  case (Cons b bodies)
  from Cons.prems(3) obtain v vs' where vs: "vs = v # vs'" and bv: "b_parsed b = Some v"
    and rest: "map b_parsed bodies = map Some vs'"
    by (cases vs) auto
  from Cons.prems(2) have bt: "text_truthy (b_text b)" and bts: "list_all (\<lambda>b. text_truthy (b_text b)) bodies"
    by simp_all
  obtain acc1 ind1 where f: "foldExample (acc, ind) v = (acc1, ind1)"
    by (cases "foldExample (acc, ind) v")
  have p1: "request_pool (mergeRequestExample op b) = Some (pool_shape acc1 ind1)"
    using mergeRequestExample_pool_step [of op acc ind b v] Cons.prems(1) bt bv f by simp
  from Cons.IH [OF p1 bts rest] vs f show ?case by simp
qed

lemma foldExample_merge_all:
  "merge_all (JObj []) (snd pool) = Some (fst pool) \<Longrightarrow>
   merge_all (JObj []) (snd (foldExample pool v)) = Some (fst (foldExample pool v))"
  by (simp add: foldExample_def merge_all_snoc split: option.splits)

lemma foldl_foldExample_merge_all:
  "merge_all (JObj []) (snd pool) = Some (fst pool) \<Longrightarrow>
   merge_all (JObj []) (snd (foldl foldExample pool vs)) = Some (fst (foldl foldExample pool vs))"
  by (induction vs arbitrary: pool) (simp_all add: foldExample_merge_all)

lemma foldl_foldExample_subseq:
  "\<exists>ks. snd (foldl foldExample pool vs) = snd pool @ ks \<and> subseq ks vs"
proof (induction vs arbitrary: pool)
  case Nil
  then show ?case by simp
next
  case (Cons v vs)
  from Cons.IH [of "foldExample pool v"] obtain ks
    where ks: "snd (foldl foldExample (foldExample pool v) vs) = snd (foldExample pool v) @ ks"
      and s: "subseq ks vs"
    by blast
  have "snd (foldExample pool v) = snd pool \<or> snd (foldExample pool v) = snd pool @ [v]"
    by (simp add: foldExample_def split: option.splits)
  then show ?case
  proof
    assume "snd (foldExample pool v) = snd pool"
    with ks s show ?thesis by (auto intro!: exI [of _ ks])
  next
    assume "snd (foldExample pool v) = snd pool @ [v]"
    with ks s show ?thesis by (auto intro!: exI [of _ "v # ks"])
  qed
qed

text \<open>
  The input \<^verbatim>\<open>{"constructor":1,"a":2}\<close>, \<^verbatim>\<open>{"a":2}\<close>: the merge into the empty accumulator
  leaves out the key \<^verbatim>\<open>constructor\<close>, which the empty object has through its prototype, so
  the accumulator is \<^verbatim>\<open>{"a":2}\<close>; the second body has the serialization of the accumulator
  and is discarded. A target that is not an object has no prototype to look through, and a
  target that holds the key itself is merged on it.
\<close>

lemma merge_prototype_member_keys:
  "deepmerge (JObj []) (JObj [(''constructor'', JNum 1), (''a'', JNum 2)]) = Some (JObj [(''a'', JNum 2)])
   \<and> foldl foldExample (JObj [], []) [JObj [(''constructor'', JNum 1), (''a'', JNum 2)], JObj [(''a'', JNum 2)]]
       = (JObj [(''a'', JNum 2)], [JObj [(''constructor'', JNum 1), (''a'', JNum 2)]])
   \<and> pool_shape (JObj [(''a'', JNum 2)]) [JObj [(''constructor'', JNum 1), (''a'', JNum 2)]]
       = [(''example-0001'', JObj [(''a'', JNum 2)]),
          (''example-0002'', JObj [(''constructor'', JNum 1), (''a'', JNum 2)])]
   \<and> deepmerge (JObj [(''a'', JNum 5)]) (JObj [(''a'', JObj [(''constructor'', JNum 1)])])
       = Some (JObj [(''a'', JObj [(''constructor'', JNum 1)])])
   \<and> deepmerge (JObj [(''a'', JObj [(''constructor'', JNum 1)])]) (JObj [(''b'', JNum 1)])
       = Some (JObj [(''a'', JObj []), (''b'', JNum 1)])
   \<and> deepmerge (JObj [(''toString'', JNum 1)]) (JObj [(''toString'', JNum 2), (''valueOf'', JNum 3)])
       = Some (JObj [(''toString'', JNum 2)])"
  by code_simp

text \<open>
  C3, as the code has it: folding the request bodies \<open>vs\<close> (at least one, none with a key
  \<^verbatim>\<open>__proto__\<close>) into an operation without a request pool gives the pool that \<open>foldExample\<close>
  computes from the empty accumulator: the accumulator \<^verbatim>\<open>example-0001\<close> and, under
  \<^verbatim>\<open>example-0002\<close>, \<^verbatim>\<open>example-0003\<close>, ..., the values that were not discarded, a
  subsequence of \<open>vs\<close>. The accumulator is the left fold of these stored values from the empty
  object under the merge, and the left fold of \<open>vs\<close> itself when nothing was discarded. Where
  two arrays meet, at the top or under a key of two objects, the merge returns the later one.
\<close>

theorem accumulator_left_fold_of_stored:
  assumes "requestBody specMethod = None"
    and "list_all (\<lambda>b. text_truthy (b_text b)) bodies"
    and "map b_parsed bodies = map Some vs"
    and "vs \<noteq> []"
    and "list_all proto_free vs"
  shows "request_pool (foldl mergeRequestExample specMethod bodies)
           = Some (pool_shape (fst (foldl foldExample (JObj [], []) vs))
                              (snd (foldl foldExample (JObj [], []) vs)))
         \<and> merge_all (JObj []) (snd (foldl foldExample (JObj [], []) vs))
           = Some (fst (foldl foldExample (JObj [], []) vs))
         \<and> subseq (snd (foldl foldExample (JObj [], []) vs)) vs
         \<and> (length (snd (foldl foldExample (JObj [], []) vs)) = length vs
              \<longrightarrow> merge_all (JObj []) vs = Some (fst (foldl foldExample (JObj [], []) vs)))
         \<and> deepmerge (JArr xs) (JArr ys) = Some (JArr ys)
         \<and> (k \<noteq> ''__proto__''
              \<longrightarrow> deepmerge (JObj [(k, JArr xs)]) (JObj [(k, JArr ys)]) = Some (JObj [(k, JArr ys)]))"
proof -
  let ?P = "foldl foldExample (JObj [], []) vs"
  have arr: "deepmerge (JArr xs) (JArr ys) = Some (JArr ys)
      \<and> (k \<noteq> ''__proto__''
           \<longrightarrow> deepmerge (JObj [(k, JArr xs)]) (JObj [(k, JArr ys)]) = Some (JObj [(k, JArr ys)]))"
    by (simp add: overwriteMerge_def cloneProps_def propertyIsUnsafe_def dest_set_def obj_set_def)
  from assms(3,4) obtain b bodies' v vs' where bodies: "bodies = b # bodies'" and vs: "vs = v # vs'"
    and bv: "b_parsed b = Some v" and rest: "map b_parsed bodies' = map Some vs'"
    by (cases bodies; cases vs) auto
  from assms(2) bodies have bt: "text_truthy (b_text b)"
    and bts: "list_all (\<lambda>b. text_truthy (b_text b)) bodies'"
    by simp_all
  obtain acc1 ind1 where f: "foldExample (JObj [], []) v = (acc1, ind1)"
    by (cases "foldExample (JObj [], []) v")
  have p1: "request_pool (mergeRequestExample specMethod b) = Some (pool_shape acc1 ind1)"
    using mergeRequestExample_pool_step [of specMethod "JObj []" "[]" b v] assms(1) bt bv f by simp
  have pool: "request_pool (foldl mergeRequestExample specMethod bodies) = Some (pool_shape (fst ?P) (snd ?P))"
    using foldl_mergeRequestExample_pool [OF p1 bts rest] bodies vs f by simp
  have acc: "merge_all (JObj []) (snd ?P) = Some (fst ?P)"
    by (rule foldl_foldExample_merge_all) simp
  have sub: "subseq (snd ?P) vs"
    using foldl_foldExample_subseq [of "(JObj [], [])" vs] by auto
  have "length (snd ?P) = length vs \<longrightarrow> snd ?P = vs"
    using sub subseq_same_length by blast
  with pool acc sub arr show ?thesis by auto
qed

text \<open>C3, witness: two distinct request bodies; both are stored.\<close>

theorem accumulator_left_fold_of_stored_witness:
  "requestBody sample_operation = None
   \<and> list_all (\<lambda>b. text_truthy (b_text b)) [body_a1, body_ab]
   \<and> map b_parsed [body_a1, body_ab] = map Some [JObj [(''a'', JNum 1)], JObj [(''a'', JNum 1), (''b'', JNum 2)]]
   \<and> [JObj [(''a'', JNum 1)], JObj [(''a'', JNum 1), (''b'', JNum 2)]] \<noteq> []
   \<and> list_all proto_free [JObj [(''a'', JNum 1)], JObj [(''a'', JNum 1), (''b'', JNum 2)]]
   \<and> ''tags'' \<noteq> ''__proto__''
   \<and> foldl foldExample (JObj [], []) [JObj [(''a'', JNum 1)], JObj [(''a'', JNum 1), (''b'', JNum 2)]]
       = (JObj [(''a'', JNum 1), (''b'', JNum 2)], [JObj [(''a'', JNum 1)], JObj [(''a'', JNum 1), (''b'', JNum 2)]])
   \<and> request_pool (foldl mergeRequestExample sample_operation [body_a1, body_ab])
       = Some (pool_shape (fst (foldl foldExample (JObj [], []) [JObj [(''a'', JNum 1)], JObj [(''a'', JNum 1), (''b'', JNum 2)]]))
                          (snd (foldl foldExample (JObj [], []) [JObj [(''a'', JNum 1)], JObj [(''a'', JNum 1), (''b'', JNum 2)]])))
   \<and> merge_all (JObj []) [JObj [(''a'', JNum 1)], JObj [(''a'', JNum 1), (''b'', JNum 2)]]
       = Some (fst (foldl foldExample (JObj [], []) [JObj [(''a'', JNum 1)], JObj [(''a'', JNum 1), (''b'', JNum 2)]]))
   \<and> deepmerge (JArr [JNum 1, JNum 2]) (JArr [JNum 3]) = Some (JArr [JNum 3])
   \<and> deepmerge (JObj [(''tags'', JArr [JNum 1, JNum 2])]) (JObj [(''tags'', JArr [JNum 3])])
       = Some (JObj [(''tags'', JArr [JNum 3])])"
proof -
  have h1: "requestBody sample_operation = None" by code_simp
  have h2: "list_all (\<lambda>b. text_truthy (b_text b)) [body_a1, body_ab]" by code_simp
  have h3: "map b_parsed [body_a1, body_ab] = map Some [JObj [(''a'', JNum 1)], JObj [(''a'', JNum 1), (''b'', JNum 2)]]"
    by code_simp
  have h4: "[JObj [(''a'', JNum 1)], JObj [(''a'', JNum 1), (''b'', JNum 2)]] \<noteq> []" by simp
  have h5: "foldl foldExample (JObj [], []) [JObj [(''a'', JNum 1)], JObj [(''a'', JNum 1), (''b'', JNum 2)]]
       = (JObj [(''a'', JNum 1), (''b'', JNum 2)], [JObj [(''a'', JNum 1)], JObj [(''a'', JNum 1), (''b'', JNum 2)]])"
    by code_simp
  have h6: "length (snd (foldl foldExample (JObj [], []) [JObj [(''a'', JNum 1)], JObj [(''a'', JNum 1), (''b'', JNum 2)]]))
       = length [JObj [(''a'', JNum 1)], JObj [(''a'', JNum 1), (''b'', JNum 2)]]"
    by (simp only: h5) simp
  have h7: "list_all proto_free [JObj [(''a'', JNum 1)], JObj [(''a'', JNum 1), (''b'', JNum 2)]]"
    by code_simp
  have h8: "''tags'' \<noteq> ''__proto__''" by simp
  show ?thesis
    using h1 h2 h3 h4 h5 h6 h7 h8
      accumulator_left_fold_of_stored [OF h1 h2 h3 h4 h7, of "[JNum 1, JNum 2]" "[JNum 3]" "''tags''"]
    by blast
qed

text \<open>
  C3, counterexample: \<^verbatim>\<open>{"a":1}\<close>, \<^verbatim>\<open>{"a":2}\<close>, \<^verbatim>\<open>{"a":1}\<close>. The third body
  repeats \<^verbatim>\<open>example-0002\<close> and is discarded, so the accumulator stays \<^verbatim>\<open>{"a":2}\<close>,
  while the left fold of the three bodies is \<^verbatim>\<open>{"a":1}\<close>.
\<close>

theorem accumulator_left_fold_counterexample:
  "request_pool (foldl mergeRequestExample sample_operation [body_a1, body_a2, body_a1])
     = Some [(''example-0001'', JObj [(''a'', JNum 2)]),
             (''example-0002'', JObj [(''a'', JNum 1)]),
             (''example-0003'', JObj [(''a'', JNum 2)])]
   \<and> map b_parsed [body_a1, body_a2, body_a1]
     = map Some [JObj [(''a'', JNum 1)], JObj [(''a'', JNum 2)], JObj [(''a'', JNum 1)]]
   \<and> merge_all (JObj []) [JObj [(''a'', JNum 1)], JObj [(''a'', JNum 2)], JObj [(''a'', JNum 1)]]
     = Some (JObj [(''a'', JNum 1)])"
  by code_simp


subsection \<open>Path normalizer\<close>







subsection \<open>Traffic ingestion\<close>

lemma requestBody_addResponse: "requestBody (addResponse status m specMethod) = requestBody specMethod"
  by (simp add: addResponse_def set_response_def)

lemma requestBody_addQueryStringParams: "requestBody (addQueryStringParams specMethod ps) = requestBody specMethod"
  by (simp add: addQueryStringParams_def Let_def)

lemma requestBody_set_description: "requestBody (set_description data specMethod) = requestBody specMethod"
  by (simp add: set_description_def split: option.splits)

lemma requestBody_set_element: "requestBody (set_element data specMethod) = requestBody specMethod"
  by (simp add: set_element_def split: option.splits)

lemma requestBody_mergeResponseExample:
  "requestBody (mergeResponseExample specMethod statusString content m u) = requestBody specMethod"
  by (simp add: mergeResponseExample_def Let_def set_response_examples_def
      requestBody_set_description requestBody_set_element split: option.splits json.splits)

lemma requestBody_update_operation:
  assumes "update_operation specMethod0 item m u = Inr specMethod"
    and "400 \<le> res_status (e_response item)"
  shows "requestBody specMethod = requestBody specMethod0"
  using assms
  by (auto simp: update_operation_def Let_def requestBody_addResponse requestBody_addQueryStringParams
      requestBody_mergeResponseExample split: option.splits if_splits)

lemma request_body_in_obj_set:
  "request_body_in (obj_set pathItem k (Op specMethod)) m =
     (if m = k then requestBody specMethod else request_body_in pathItem m)"
  by (simp add: request_body_in_def obj_get_obj_set)

lemma request_body_in_parameters: "request_body_in [(''parameters'', Params ps)] m = None"
  by (simp add: request_body_in_def obj_get_def)

lemma request_body_in_empty: "request_body_in [] m = None"
  by (simp add: request_body_in_def obj_get_def)

lemma fst_addMethod:
  "fst (addMethod pluralize method filteredUrl url config pathItem methodList) =
     obj_set pathItem method
       (Op (fresh_operation (operation_id method filteredUrl)
              (deriveSummary pluralize method filteredUrl) (deriveTag filteredUrl config) url))"
  by (simp add: addMethod_def Let_def)

lemma requestBody_fresh_operation: "requestBody (fresh_operation oid summ tag url) = None"
  by (simp add: fresh_operation_def)

lemma request_body_in_None: "obj_get pathItem m = None \<Longrightarrow> request_body_in pathItem m = None"
  by (simp add: request_body_in_def)

lemma request_body_in_Op:
  "obj_get pathItem m = Some (Op specMethod) \<Longrightarrow> request_body_in pathItem m = requestBody specMethod"
  by (simp add: request_body_in_def)

lemma processEntry_request_body:
  assumes "processEntry replaceAll pluralize config item st = Inr st'"
    and "400 \<le> res_status (e_response item)"
  shows "request_body_at st' p m = request_body_at st p m"
proof -
  note frame = requestBody_update_operation [OF _ assms(2)]
  show ?thesis
    using assms(1)
    unfolding processEntry_def Let_def request_body_at_def
    by (auto split: if_splits sum.splits option.splits pathEntry.splits
        simp: obj_get_obj_set addPath_def fst_addMethod request_body_in_obj_set request_body_in_parameters
          request_body_in_empty requestBody_fresh_operation request_body_in_None request_body_in_Op
          obj_get_singleton
        dest!: frame)
qed

lemma process_entries_request_body:
  assumes "process_entries replaceAll pluralize config items st = Inr final"
    and "list_all (\<lambda>item. 400 \<le> res_status (e_response item)) items"
  shows "request_body_at final p m = request_body_at st p m"
  using assms
proof (induction items arbitrary: st)
  case Nil
  then show ?case by simp
next
  case (Cons item items)
  from Cons.prems(1) obtain st1 where s1: "processEntry replaceAll pluralize config item st = Inr st1"
    and rest: "process_entries replaceAll pluralize config items st1 = Inr final"
    by (auto split: sum.splits)
  from Cons.prems(2) have i: "400 \<le> res_status (e_response item)"
    and rest_ok: "list_all (\<lambda>item. 400 \<le> res_status (e_response item)) items"
    by simp_all
  have "request_body_at final p m = request_body_at st1 p m"
    by (rule Cons.IH [OF rest rest_ok])
  also have "\<dots> = request_body_at st p m"
    by (rule processEntry_request_body [OF s1 i])
  finally show ?case .
qed

text \<open>
  C9: a transaction whose response status is 400 or more leaves the request body slot of
  every operation as it was (the request body is handed to \<^verbatim>\<open>mergeRequestExample\<close> only
  under the guard of line 485, and nothing else writes the slot); so after a run over such
  transactions only, from the empty specification, no operation has a request pool.
\<close>

theorem failed_request_not_folded:
  "(processEntry replaceAll pluralize config item st = Inr st' \<and> 400 \<le> res_status (e_response item)
      \<longrightarrow> request_body_at st' path method = request_body_at st path method)
   \<and> (process_entries replaceAll pluralize config items \<lparr>g_paths = [], g_methodList = []\<rparr> = Inr final
        \<and> list_all (\<lambda>item. 400 \<le> res_status (e_response item)) items
      \<longrightarrow> request_body_at final path method = None)"
proof (intro conjI impI)
  assume "processEntry replaceAll pluralize config item st = Inr st' \<and> 400 \<le> res_status (e_response item)"
  then show "request_body_at st' path method = request_body_at st path method"
    using processEntry_request_body by blast
next
  assume a: "process_entries replaceAll pluralize config items \<lparr>g_paths = [], g_methodList = []\<rparr> = Inr final
        \<and> list_all (\<lambda>item. 400 \<le> res_status (e_response item)) items"
  then have "request_body_at final path method = request_body_at \<lparr>g_paths = [], g_methodList = []\<rparr> path method"
    using process_entries_request_body by blast
  then show "request_body_at final path method = None"
    by (simp add: request_body_at_def obj_get_def)
qed

text \<open>
  C9, witness: a \<^verbatim>\<open>POST\<close> with a body of 7 bytes answered with status 400, once and
  twice.
\<close>

theorem failed_request_not_folded_witness:
  "processEntry literal_engine (\<lambda>w n. w) sample_config failed_post \<lparr>g_paths = [], g_methodList = []\<rparr>
     = Inr failed_post_state
   \<and> 0 < req_bodySize (e_request failed_post)
   \<and> 400 \<le> res_status (e_response failed_post)
   \<and> request_body_at failed_post_state ''/accounts/{account_id}/'' ''post''
     = request_body_at \<lparr>g_paths = [], g_methodList = []\<rparr> ''/accounts/{account_id}/'' ''post''
   \<and> process_entries literal_engine (\<lambda>w n. w) sample_config [failed_post, failed_post]
        \<lparr>g_paths = [], g_methodList = []\<rparr> = Inr failed_post_state
   \<and> list_all (\<lambda>item. 400 \<le> res_status (e_response item)) [failed_post, failed_post]
   \<and> request_body_at failed_post_state ''/accounts/{account_id}/'' ''post'' = None"
proof -
  have h1: "processEntry literal_engine (\<lambda>w n. w) sample_config failed_post \<lparr>g_paths = [], g_methodList = []\<rparr>
     = Inr failed_post_state"
    by code_simp
  have h2: "0 < req_bodySize (e_request failed_post) \<and> 400 \<le> res_status (e_response failed_post)"
    by code_simp
  have h3: "process_entries literal_engine (\<lambda>w n. w) sample_config [failed_post, failed_post]
        \<lparr>g_paths = [], g_methodList = []\<rparr> = Inr failed_post_state"
    by code_simp
  have h4: "list_all (\<lambda>item. 400 \<le> res_status (e_response item)) [failed_post, failed_post]"
    by code_simp
  show ?thesis
    using h1 h2 h3 h4
      failed_request_not_folded [of literal_engine "\<lambda>w n. w" sample_config failed_post
        "\<lparr>g_paths = [], g_methodList = []\<rparr>" failed_post_state "''/accounts/{account_id}/''" "''post''"
        "[failed_post, failed_post]" failed_post_state]
    by blast
qed


text \<open>
  The classifier assigns a new response object, without \<^verbatim>\<open>content\<close>, under the key of
  the status; so within \<^verbatim>\<open>generateSpec\<close> the response pool of a classified status is
  emptied by each transaction before its body is folded, and after two \<^verbatim>\<open>GET\<close>s with
  different bodies the pool holds the second body only.
\<close>

theorem response_pool_after_addResponse:
  "response_pool (set_response specPath key d) key = None
   \<and> (case process_entries literal_engine (\<lambda>w n. w) sample_config [get_42, get_43]
              \<lparr>g_paths = [], g_methodList = []\<rparr> of
         Inl e \<Rightarrow> False
       | Inr st \<Rightarrow>
           (case obj_get (g_paths st) ''/accounts/{account_id}/'' of
              None \<Rightarrow> False
            | Some pathItem \<Rightarrow>
                (case obj_get pathItem ''get'' of
                   Some (Op specMethod) \<Rightarrow>
                     response_pool specMethod ''200''
                       = Some [(''example-0001'', JObj [(''id'', JNum 43), (''name'', JStr ''b''), (''extra'', JBool True)]),
                               (''example-0002'', JObj [(''id'', JNum 43), (''name'', JStr ''b''), (''extra'', JBool True)])]
                 | _ \<Rightarrow> False)))"
proof -
  have a: "response_pool (set_response specPath key d) key = None"
    by (simp add: response_pool_def set_response_def obj_get_obj_set)
  have b: "(case process_entries literal_engine (\<lambda>w n. w) sample_config [get_42, get_43]
              \<lparr>g_paths = [], g_methodList = []\<rparr> of
         Inl e \<Rightarrow> False
       | Inr st \<Rightarrow>
           (case obj_get (g_paths st) ''/accounts/{account_id}/'' of
              None \<Rightarrow> False
            | Some pathItem \<Rightarrow>
                (case obj_get pathItem ''get'' of
                   Some (Op specMethod) \<Rightarrow>
                     response_pool specMethod ''200''
                       = Some [(''example-0001'', JObj [(''id'', JNum 43), (''name'', JStr ''b''), (''extra'', JBool True)]),
                               (''example-0002'', JObj [(''id'', JNum 43), (''name'', JStr ''b''), (''extra'', JBool True)])]
                 | _ \<Rightarrow> False)))"
    by code_simp
  from a b show ?thesis by (rule conjI)
qed


subsection \<open>Spec reconciler\<close>

lemma keys_obj_set: "fst ` set (obj_set ob k v) = insert k (fst ` set ob)"
proof -
  have "dom (map_of (obj_set ob k v)) = insert k (dom (map_of ob))"
    using obj_get_obj_set [of ob k v] by (auto simp: obj_get_def dom_def split: if_splits)
  then show ?thesis by (simp add: dom_map_of_conv_image_fst)
qed

lemma obj_get_Cons: "obj_get ((k, v) # ob) k' = (if k' = k then Some v else obj_get ob k')"
  by (simp add: obj_get_def)

lemma obj_get_None_iff: "obj_get ob k = None \<longleftrightarrow> k \<notin> fst ` set ob"
  by (simp add: obj_get_def map_of_eq_None_iff)

lemma gen_method_other:
  assumes "gen_method quicktypeJSON toOpenApiSchema path method curated pathItem = Inr pathItem'"
    and "m \<noteq> method"
  shows "obj_get pathItem' m = obj_get pathItem m"
  using assms
  by (auto simp: gen_method_def Let_def obj_get_obj_set split: option.splits sum.splits)

lemma gen_methods_other:
  assumes "gen_methods quicktypeJSON toOpenApiSchema path methods pathItem = Inr pathItem'"
    and "obj_get methods m = None"
  shows "obj_get pathItem' m = obj_get pathItem m"
  using assms
proof (induction methods arbitrary: pathItem)
  case Nil
  then show ?case by simp
next
  case (Cons a methods)
  obtain mth cur where a: "a = (mth, cur)" by (cases a)
  from Cons.prems(2) a have ne: "m \<noteq> mth" and rest: "obj_get methods m = None"
    by (auto simp: obj_get_Cons split: if_splits)
  from Cons.prems(1) a obtain pathItem1
    where s1: "gen_method quicktypeJSON toOpenApiSchema path mth cur pathItem = Inr pathItem1"
      and s2: "gen_methods quicktypeJSON toOpenApiSchema path methods pathItem1 = Inr pathItem'"
    by (auto split: sum.splits)
  have "obj_get pathItem' m = obj_get pathItem1 m"
    by (rule Cons.IH [OF s2 rest])
  also have "\<dots> = obj_get pathItem m"
    by (rule gen_method_other [OF s1 ne])
  finally show ?case .
qed

lemma gen_paths_keys:
  assumes "gen_paths quicktypeJSON toOpenApiSchema oldSpec masterExamples newPaths = Inr result"
  shows "fst ` set result = fst ` set newPaths \<union> fst ` set masterExamples"
  using assms
proof (induction masterExamples arbitrary: newPaths)
  case Nil
  then show ?case by simp
next
  case (Cons a masterExamples)
  obtain path methods where a: "a = (path, methods)" by (cases a)
  from Cons.prems a obtain pathItem'
    where s2: "gen_paths quicktypeJSON toOpenApiSchema oldSpec masterExamples (obj_set newPaths path pathItem') = Inr result"
    by (auto split: sum.splits)
  from Cons.IH [OF s2] a show ?case
    by (auto simp: keys_obj_set)
qed

lemma gen_paths_other:
  assumes "gen_paths quicktypeJSON toOpenApiSchema oldSpec masterExamples newPaths = Inr result"
    and "obj_get masterExamples p = None"
  shows "obj_get result p = obj_get newPaths p"
  using assms
proof (induction masterExamples arbitrary: newPaths)
  case Nil
  then show ?case by simp
next
  case (Cons a masterExamples)
  obtain path methods where a: "a = (path, methods)" by (cases a)
  from Cons.prems(2) a have ne: "p \<noteq> path" and rest: "obj_get masterExamples p = None"
    by (auto simp: obj_get_Cons split: if_splits)
  from Cons.prems(1) a obtain pathItem'
    where s2: "gen_paths quicktypeJSON toOpenApiSchema oldSpec masterExamples (obj_set newPaths path pathItem') = Inr result"
    by (auto split: sum.splits)
  from Cons.IH [OF s2 rest] ne show ?case
    by (simp add: obj_get_obj_set)
qed

lemma gen_paths_mentioned:
  assumes "gen_paths quicktypeJSON toOpenApiSchema oldSpec masterExamples newPaths = Inr result"
    and "distinct (map fst masterExamples)"
    and "obj_get masterExamples p = Some methods"
  shows "\<exists>pathItem'. obj_get result p = Some pathItem'
           \<and> gen_methods quicktypeJSON toOpenApiSchema p methods
                (case obj_get (paths oldSpec) p of None \<Rightarrow> [] | Some pathItem \<Rightarrow> pathItem) = Inr pathItem'"
  using assms
proof (induction masterExamples arbitrary: newPaths)
  case Nil
  then show ?case by (simp add: obj_get_def)
next
  case (Cons a masterExamples)
  obtain path ms where a: "a = (path, ms)" by (cases a)
  from Cons.prems(1) a obtain pathItem1
    where s1: "gen_methods quicktypeJSON toOpenApiSchema path ms
                (case obj_get (paths oldSpec) path of None \<Rightarrow> [] | Some pathItem \<Rightarrow> pathItem) = Inr pathItem1"
      and s2: "gen_paths quicktypeJSON toOpenApiSchema oldSpec masterExamples (obj_set newPaths path pathItem1) = Inr result"
    by (auto split: sum.splits)
  from Cons.prems(2) a have d: "distinct (map fst masterExamples)" and fresh: "path \<notin> fst ` set masterExamples"
    by auto
  show ?case
  proof (cases "p = path")
    case True
    with Cons.prems(3) a have "methods = ms" by (simp add: obj_get_Cons)
    moreover have "obj_get masterExamples p = None"
      using True fresh by (simp add: obj_get_None_iff)
    then have "obj_get result p = obj_get (obj_set newPaths path pathItem1) p"
      by (rule gen_paths_other [OF s2])
    ultimately show ?thesis
      using True s1 by (simp add: obj_get_obj_set)
  next
    case False
    with Cons.prems(3) a have "obj_get masterExamples p = Some methods"
      by (simp add: obj_get_Cons)
    from Cons.IH [OF s2 d this] show ?thesis .
  qed
qed

text \<open>
  C1, as the code has it: when the reconciliation returns, the paths of the result are exactly
  the paths of the curated file; and under a path the curated file mentions, a method it does
  not mention is in the result what it was in the prior specification (the same operation,
  or absent as before).
\<close>

theorem reconcile_carries_unmentioned_methods:
  "(generateSchema quicktypeJSON toOpenApiSchema masterExamples oldSpec = Inr newSpec
      \<longrightarrow> fst ` set (paths newSpec) = fst ` set masterExamples)
   \<and> (generateSchema quicktypeJSON toOpenApiSchema masterExamples oldSpec = Inr newSpec
        \<and> distinct (map fst masterExamples)
        \<and> obj_get masterExamples path = Some methods \<and> obj_get methods method = None
        \<and> obj_get (paths oldSpec) path = Some pathItem
      \<longrightarrow> (\<exists>pathItem'. obj_get (paths newSpec) path = Some pathItem'
             \<and> obj_get pathItem' method = obj_get pathItem method))"
proof (intro conjI impI)
  assume "generateSchema quicktypeJSON toOpenApiSchema masterExamples oldSpec = Inr newSpec"
  then have "gen_paths quicktypeJSON toOpenApiSchema oldSpec masterExamples [] = Inr (paths newSpec)"
    by (auto simp: generateSchema_def split: sum.splits)
  from gen_paths_keys [OF this] show "fst ` set (paths newSpec) = fst ` set masterExamples"
    by simp
next
  assume a: "generateSchema quicktypeJSON toOpenApiSchema masterExamples oldSpec = Inr newSpec
        \<and> distinct (map fst masterExamples)
        \<and> obj_get masterExamples path = Some methods \<and> obj_get methods method = None
        \<and> obj_get (paths oldSpec) path = Some pathItem"
  then have g: "gen_paths quicktypeJSON toOpenApiSchema oldSpec masterExamples [] = Inr (paths newSpec)"
    by (auto simp: generateSchema_def split: sum.splits)
  from a have d: "distinct (map fst masterExamples)" and m: "obj_get masterExamples path = Some methods"
    and n: "obj_get methods method = None" and old: "obj_get (paths oldSpec) path = Some pathItem"
    by simp_all
  from gen_paths_mentioned [OF g d m] old obtain pathItem'
    where r: "obj_get (paths newSpec) path = Some pathItem'"
      and gm: "gen_methods quicktypeJSON toOpenApiSchema path methods pathItem = Inr pathItem'"
    by auto
  from gen_methods_other [OF gm n] r
  show "\<exists>pathItem'. obj_get (paths newSpec) path = Some pathItem'
             \<and> obj_get pathItem' method = obj_get pathItem method"
    by blast
qed

text \<open>
  C1, witness: the curated file mentions \<^verbatim>\<open>/items/\<close> with \<^verbatim>\<open>post\<close> only; the
  \<^verbatim>\<open>get\<close> operation of the prior specification is carried over.
\<close>

theorem reconcile_carries_unmentioned_methods_witness:
  "generateSchema constant_inference (\<lambda>j. j) curated_items_post prior_spec
     = Inr \<lparr>openapi = JStr ''3.0.0'',
          info = JObj [(''title'', JStr ''API''), (''version'', JStr ''1.0.0'')],
          servers = JArr [JObj [(''url'', JStr ''/'')]],
          paths = [(''/items/'',
            [(''get'', Op sample_operation),
             (''post'', Op ((skeleton_operation ''post'' ''/items/'')\<lparr>requestBody :=
                Some \<lparr>rb_content = [(''application/json'',
                  \<lparr>mt_examples = Some [(''example-1'', JObj [(''a'', JNum 1)])],
                   mt_schema = Some (JObj [(''type'', JStr ''object'')])\<rparr>)]\<rparr>\<rparr>))])]\<rparr>
   \<and> distinct (map fst curated_items_post)
   \<and> obj_get curated_items_post ''/items/'' = Some [(''post'', \<lparr>c_request = [(''gexample-0002'', JObj [(''a'', JNum 1)])], c_response = []\<rparr>)]
   \<and> obj_get [(''post'', \<lparr>c_request = [(''gexample-0002'', JObj [(''a'', JNum 1)])], c_response = []\<rparr>)] ''get'' = None
   \<and> obj_get (paths prior_spec) ''/items/'' = Some [(''get'', Op sample_operation)]
   \<and> fst ` set (paths \<lparr>openapi = JStr ''3.0.0'',
          info = JObj [(''title'', JStr ''API''), (''version'', JStr ''1.0.0'')],
          servers = JArr [JObj [(''url'', JStr ''/'')]],
          paths = [(''/items/'',
            [(''get'', Op sample_operation),
             (''post'', Op ((skeleton_operation ''post'' ''/items/'')\<lparr>requestBody :=
                Some \<lparr>rb_content = [(''application/json'',
                  \<lparr>mt_examples = Some [(''example-1'', JObj [(''a'', JNum 1)])],
                   mt_schema = Some (JObj [(''type'', JStr ''object'')])\<rparr>)]\<rparr>\<rparr>))])]\<rparr>) = fst ` set curated_items_post
   \<and> (\<exists>pathItem'. obj_get (paths \<lparr>openapi = JStr ''3.0.0'',
          info = JObj [(''title'', JStr ''API''), (''version'', JStr ''1.0.0'')],
          servers = JArr [JObj [(''url'', JStr ''/'')]],
          paths = [(''/items/'',
            [(''get'', Op sample_operation),
             (''post'', Op ((skeleton_operation ''post'' ''/items/'')\<lparr>requestBody :=
                Some \<lparr>rb_content = [(''application/json'',
                  \<lparr>mt_examples = Some [(''example-1'', JObj [(''a'', JNum 1)])],
                   mt_schema = Some (JObj [(''type'', JStr ''object'')])\<rparr>)]\<rparr>\<rparr>))])]\<rparr>) ''/items/'' = Some pathItem'
         \<and> obj_get pathItem' ''get'' = obj_get [(''get'', Op sample_operation)] ''get'')"
proof -
  have h1: "generateSchema constant_inference (\<lambda>j. j) curated_items_post prior_spec
     = Inr \<lparr>openapi = JStr ''3.0.0'',
          info = JObj [(''title'', JStr ''API''), (''version'', JStr ''1.0.0'')],
          servers = JArr [JObj [(''url'', JStr ''/'')]],
          paths = [(''/items/'',
            [(''get'', Op sample_operation),
             (''post'', Op ((skeleton_operation ''post'' ''/items/'')\<lparr>requestBody :=
                Some \<lparr>rb_content = [(''application/json'',
                  \<lparr>mt_examples = Some [(''example-1'', JObj [(''a'', JNum 1)])],
                   mt_schema = Some (JObj [(''type'', JStr ''object'')])\<rparr>)]\<rparr>\<rparr>))])]\<rparr>"
    by code_simp
  have h2: "distinct (map fst curated_items_post)"
    by code_simp
  have h3: "obj_get curated_items_post ''/items/'' = Some [(''post'', \<lparr>c_request = [(''gexample-0002'', JObj [(''a'', JNum 1)])], c_response = []\<rparr>)]"
    by code_simp
  have h4: "obj_get [(''post'', \<lparr>c_request = [(''gexample-0002'', JObj [(''a'', JNum 1)])], c_response = []\<rparr>)] ''get'' = None"
    by code_simp
  have h5: "obj_get (paths prior_spec) ''/items/'' = Some [(''get'', Op sample_operation)]"
    by code_simp
  show ?thesis
    using h1 h2 h3 h4 h5
      reconcile_carries_unmentioned_methods [of constant_inference "\<lambda>j. j" curated_items_post prior_spec
        "\<lparr>openapi = JStr ''3.0.0'',
          info = JObj [(''title'', JStr ''API''), (''version'', JStr ''1.0.0'')],
          servers = JArr [JObj [(''url'', JStr ''/'')]],
          paths = [(''/items/'',
            [(''get'', Op sample_operation),
             (''post'', Op ((skeleton_operation ''post'' ''/items/'')\<lparr>requestBody :=
                Some \<lparr>rb_content = [(''application/json'',
                  \<lparr>mt_examples = Some [(''example-1'', JObj [(''a'', JNum 1)])],
                   mt_schema = Some (JObj [(''type'', JStr ''object'')])\<rparr>)]\<rparr>\<rparr>))])]\<rparr>" "''/items/''" "[(''post'', \<lparr>c_request = [(''gexample-0002'', JObj [(''a'', JNum 1)])], c_response = []\<rparr>)]" "''get''" "[(''get'', Op sample_operation)]"]
    by blast
qed

text \<open>
  C1, counterexample: the curated file mentions \<^verbatim>\<open>/users/\<close> only; the path
  \<^verbatim>\<open>/items/\<close> of the prior specification is not in the result.
\<close>

theorem reconcile_drops_unmentioned_path_counterexample:
  "obj_get (paths prior_spec) ''/items/'' = Some [(''get'', Op sample_operation)]
   \<and> obj_get curated_users ''/items/'' = None
   \<and> (case generateSchema constant_inference (\<lambda>j. j) curated_users prior_spec of
         Inl e \<Rightarrow> False
       | Inr newSpec \<Rightarrow> obj_get (paths newSpec) ''/items/'' = None)"
  by code_simp


end
